theory Spec2Isabelle
  imports Complex_Main "HOL-Library.Signed_Division"
begin

section \<open>Index arithmetic of the element-cyclic distributions\<close>

text \<open>
  The C++ source computes with \<open>int\<close>, a 32-bit two's complement integer. Indices, extents
  and ranks are modelled as integers; the quotient \<open>/\<close> and the remainder \<open>%\<close> of C++
  round towards zero and are written \<open>sdiv\<close> and \<open>smod\<close>. A sum or product that an
  in-range input can bring beyond the limits of the type is reduced by \<open>int32\<close>: the
  owner and local index of the entrywise operations, and the ranks, message sizes and buffer
  offsets of the assignment from [MR,*]. The assignments from [VR,*] and from [MR,MC] are
  studied on empty matrices only, where every such product is 0, and are written without the
  reduction.
\<close>

definition int32 :: "int \<Rightarrow> int" where
  \<comment> \<open>The value of an \<open>int\<close> expression whose exact result is \<open>x\<close>: it wraps around at
      32 bits.\<close>
  "int32 x = (x + 2147483648) mod 4294967296 - 2147483648"

definition Shift :: "int \<Rightarrow> int \<Rightarrow> int \<Rightarrow> int" where
  \<comment> \<open>Modelled from the spec: \<open>Shift\<close> is declared outside \<open>Base_MR_STAR.cpp\<close>.
      Shift for a given rank = (rank - alignment + stride) mod stride.\<close>
  "Shift rank alignment stride = (rank - alignment + stride) smod stride"

definition RawShift :: "int \<Rightarrow> int \<Rightarrow> int \<Rightarrow> int" where
  \<comment> \<open>Modelled from the spec: the same formula, the name used inside unpack loops.\<close>
  "RawShift rank alignment stride = (rank - alignment + stride) smod stride"

definition LocalLength :: "int \<Rightarrow> int \<Rightarrow> int \<Rightarrow> int" where
  \<comment> \<open>Modelled from the spec: \<open>LocalLength\<close> is declared outside \<open>Base_MR_STAR.cpp\<close>.
      Local length of a global extent n = the ceiling of (n - shift)/stride, clamped at 0.
      For a positive stride the ceiling of \<open>a/stride\<close> is \<open>- ((- a) div stride)\<close>.\<close>
  "LocalLength n shift stride = max 0 (- ((shift - n) div stride))"

definition RawLocalLength :: "int \<Rightarrow> int \<Rightarrow> int \<Rightarrow> int" where
  \<comment> \<open>Modelled from the spec: the same formula, the name used inside unpack loops.\<close>
  "RawLocalLength n shift stride = LocalLength n shift stride"

definition MaxLocalLength :: "int \<Rightarrow> int \<Rightarrow> int" where
  \<comment> \<open>Modelled from the spec: the largest local length over all shifts, which is the one
      of shift 0. It only sizes communication buffers.\<close>
  "MaxLocalLength n stride = LocalLength n 0 stride"

section \<open>Processes, grids and local matrices\<close>

text \<open>
  The program is SPMD: every process of the \<open>r \<times> c\<close> grid runs the same method on its own
  part of the matrix. A process is identified by its row and column in the grid; the
  \<open>Grid\<close> object of a process knows the grid's shape and the process's own ranks.
\<close>

record Grid =
  Height :: int
  Width :: int
  MCRank :: int
  MRRank :: int

definition Size :: "Grid \<Rightarrow> int" where
  \<comment> \<open>Modelled from the spec: class \<open>Grid\<close> is declared outside src; size p = r * c.\<close>
  "Size g = Height g * Width g"

definition VCRank :: "Grid \<Rightarrow> int" where
  \<comment> \<open>Modelled from the spec: the column-major linear rank.\<close>
  "VCRank g = MCRank g + Height g * MRRank g"

definition VRRank :: "Grid \<Rightarrow> int" where
  \<comment> \<open>Modelled from the spec: the row-major linear rank; the source writes \<open>col+c*k\<close> for
      the process in grid row \<open>k\<close> and grid column \<open>col\<close>.\<close>
  "VRRank g = MRRank g + Width g * MCRank g"

text \<open>
  The two compile-time parameters the source depends on: whether \<open>RELEASE\<close> is defined
  (the blocks under \<open>#ifndef RELEASE\<close> are then compiled out) and the constant
  \<open>mpi::MIN_COLL_MSG\<close>, which is declared outside src.
\<close>

record build =
  RELEASE :: bool
  MIN_COLL_MSG :: int

datatype error =
    logic_error string
  | runtime_error string
  | assertion string
  | mpi_error string

text \<open>
  A call ends by returning, by throwing (the state reached when the exception leaves the
  method is kept), or it blocks in a communication call that no partner matches.
\<close>

datatype ('r, 's) outcome =
    is_Returned: Returned (result: 'r)
  | is_Thrown: Thrown (thrown: error) (thrown_state: 's)
  | is_Blocked: Blocked (blocked_state: 's)

datatype comm = MCComm | MRComm | VCComm | VRComm

datatype mpi_call =
    Broadcast int int comm
  | AllGather int int comm
  | SendRecv int int int int comm

text \<open>
  Memory cells hold \<open>Some v\<close>, or \<open>None\<close> when their content is indeterminate (freshly
  allocated storage, an unassigned variable). A buffer is addressed by its offset. A local
  matrix is addressed by row and column: \<open>LocalBuffer()[i + j*LDim]\<close> of the source is the
  entry \<open>(i, j)\<close>; the leading dimension and the column-major layout are not represented.
\<close>

type_synonym 'a buf = "int \<Rightarrow> 'a option"

record 'a Matrix =
  mheight :: int
  mwidth :: int
  mviewing :: bool
  mentry :: "int \<Rightarrow> int \<Rightarrow> 'a option"

record 'a DistMatrix =
  grid :: Grid
  height :: int
  width :: int
  colAlignment :: int
  rowAlignment :: int
  colShift :: int
  rowShift :: int
  constrainedColAlignment :: bool
  constrainedRowAlignment :: bool
  viewing :: bool
  lockedView :: bool
  localMatrix :: "'a Matrix"

definition LocalHeight :: "'a DistMatrix \<Rightarrow> int" where
  "LocalHeight d = mheight (localMatrix d)"

definition LocalWidth :: "'a DistMatrix \<Rightarrow> int" where
  "LocalWidth d = mwidth (localMatrix d)"

subsection \<open>The local matrix class\<close>

definition Matrix_ResizeTo :: "int \<Rightarrow> int \<Rightarrow> 'a Matrix \<Rightarrow> error + 'a Matrix" where
  \<comment> \<open>Modelled from the spec: class \<open>Matrix\<close> is declared outside src. Resize fails on views
      with mismatched fixed size; otherwise it reallocates owned storage (old contents not
      preserved).\<close>
  "Matrix_ResizeTo h w m =
     (if mviewing m then
        (if h \<noteq> mheight m \<or> w \<noteq> mwidth m
         then Inl (logic_error ''Cannot resize a view to a different size.'')
         else Inr m)
      else Inr \<lparr>mheight = h, mwidth = w, mviewing = False, mentry = (\<lambda>i j. None)\<rparr>)"

definition Matrix_View :: "'a Matrix \<Rightarrow> int \<Rightarrow> int \<Rightarrow> int \<Rightarrow> int \<Rightarrow> 'a Matrix" where
  \<comment> \<open>Modelled from the spec: a non-owning reference to a sub-rectangle of the owner's local
      buffer. The window is represented by its content; later writes through the view are
      not propagated to the owner.\<close>
  "Matrix_View A i j h w =
     \<lparr>mheight = h, mwidth = w, mviewing = True,
      mentry = (\<lambda>i' j'. if 0 \<le> i' \<and> i' < h \<and> 0 \<le> j' \<and> j' < w
                         then mentry A (i + i') (j + j') else None)\<rparr>"



definition set_entry :: "'a Matrix \<Rightarrow> int \<Rightarrow> int \<Rightarrow> 'a option \<Rightarrow> 'a Matrix" where
  "set_entry m i j v = m\<lparr>mentry := (\<lambda>i' j'. if i' = i \<and> j' = j then v else mentry m i' j')\<rparr>"



subsection \<open>Assertions of the debug build\<close>

text \<open>
  The assertion methods belong to the base class, which is declared outside src; each is
  modelled from its name and from the error taxonomy of the spec. \<open>None\<close> means that the
  assertion holds.
\<close>

definition AssertFreeColAlignment :: "'a DistMatrix \<Rightarrow> error option" where
  \<comment> \<open>Modelled from the spec: the target's alignment must currently be free.\<close>
  "AssertFreeColAlignment d =
     (if constrainedColAlignment d
      then Some (assertion ''Assertion that column alignment be free failed.'') else None)"

definition AssertNotLockedView :: "'a DistMatrix \<Rightarrow> error option" where
  \<comment> \<open>Modelled from the spec: locked views forbid mutation.\<close>
  "AssertNotLockedView d =
     (if viewing d \<and> lockedView d
      then Some (assertion ''Assertion that matrix not be a locked view failed.'') else None)"

definition AssertNotStoringData :: "'a DistMatrix \<Rightarrow> error option" where
  \<comment> \<open>Modelled from the spec: a matrix that becomes a view must not own storage.\<close>
  "AssertNotStoringData d =
     (if \<not> mviewing (localMatrix d) \<and> 0 < mheight (localMatrix d) * mwidth (localMatrix d)
      then Some (assertion ''Assertion that matrix not be storing data failed.'') else None)"

definition AssertSameGrid :: "'a DistMatrix \<Rightarrow> 'b DistMatrix \<Rightarrow> error option" where
  \<comment> \<open>Modelled from the spec: both matrices are distributed over the same grid.\<close>
  "AssertSameGrid d A =
     (if grid d \<noteq> grid A
      then Some (assertion ''Assertion that grids match failed.'') else None)"

definition AssertSameSize :: "'a DistMatrix \<Rightarrow> 'b DistMatrix \<Rightarrow> error option" where
  \<comment> \<open>Modelled from the spec: a size mismatch between a fixed-size view destination and the
      source's global shape is detected.\<close>
  "AssertSameSize d A =
     (if height d \<noteq> height A \<or> width d \<noteq> width A
      then Some (assertion ''Assertion that matrices be the same size failed.'') else None)"

definition AssertValidEntry :: "'a DistMatrix \<Rightarrow> int \<Rightarrow> int \<Rightarrow> error option" where
  \<comment> \<open>Modelled from the spec: EntryOutOfRange, an index outside the current global extent.\<close>
  "AssertValidEntry d i j =
     (if i < 0 \<or> i \<ge> height d \<or> j < 0 \<or> j \<ge> width d
      then Some (assertion ''Entry is out of bounds.'') else None)"

definition AssertValidSubmatrix ::
  "'a DistMatrix \<Rightarrow> 'b DistMatrix \<Rightarrow> int \<Rightarrow> int \<Rightarrow> int \<Rightarrow> int \<Rightarrow> error option" where
  \<comment> \<open>Modelled from the spec: the sub-rectangle lies inside the owner.\<close>
  "AssertValidSubmatrix d A i j h w =
     (if i < 0 \<or> j < 0 \<or> h < 0 \<or> w < 0 \<or> i + h > height A \<or> j + w > width A
      then Some (assertion ''Submatrix is out of bounds.'') else None)"

fun first_error :: "error option list \<Rightarrow> error option" where
  "first_error [] = None"
| "first_error (None # cs) = first_error cs"
| "first_error (Some e # cs) = Some e"

definition debug_checks :: "build \<Rightarrow> error option list \<Rightarrow> error option" where
  \<comment> \<open>The checks of an \<open>#ifndef RELEASE\<close> block, in the order of the source.\<close>
  "debug_checks b cs = (if RELEASE b then None else first_error cs)"

definition local_ResizeTo :: "int \<Rightarrow> int \<Rightarrow> 'a DistMatrix \<Rightarrow> ('a DistMatrix, 'a DistMatrix) outcome" where
  \<comment> \<open>\<open>this->_localMatrix.ResizeTo( h, w )\<close>\<close>
  "local_ResizeTo h w d =
     (case Matrix_ResizeTo h w (localMatrix d) of
        Inl e \<Rightarrow> Thrown e d
      | Inr m \<Rightarrow> Returned (d\<lparr>localMatrix := m\<rparr>))"


section \<open>The [MR,*] distribution: alignment, views, resizing\<close>

text \<open>
  In an [MR,*] matrix the rows are dealt cyclically to the \<open>c\<close> columns of the grid and
  every row of the grid holds a copy. The methods below are those of
  \<open>DistMatrixBase<T,MR,STAR>\<close>; the object the method is called on is \<open>this\<close>.
\<close>

definition set_col_alignment ::
  "int \<Rightarrow> int \<Rightarrow> 'a DistMatrix \<Rightarrow> ('a DistMatrix, 'a DistMatrix) outcome" where
  \<comment> \<open>The assignments that end \<open>AlignCols\<close> and every \<open>AlignWith\<close>:
      alignment, shift, \<open>_constrainedColAlignment = true\<close>, \<open>_height = 0\<close>, \<open>_width = 0\<close>,
      \<open>_localMatrix.ResizeTo( 0, 0 )\<close>.\<close>
  "set_col_alignment a s this =
     local_ResizeTo 0 0
       (this\<lparr>colAlignment := a, colShift := s, constrainedColAlignment := True,
              height := 0, width := 0\<rparr>)"

definition AlignCols :: "build \<Rightarrow> int \<Rightarrow> 'a DistMatrix \<Rightarrow> ('a DistMatrix, 'a DistMatrix) outcome" where
  "AlignCols b colAlign this =
     (case debug_checks b [AssertFreeColAlignment this] of
        Some e \<Rightarrow> Thrown e this
      | None \<Rightarrow>
          let g = grid this in
          if \<not> RELEASE b \<and> (colAlign < 0 \<or> colAlign \<ge> Width g)
          then Thrown (runtime_error ''Invalid column alignment for [MR,* ]'') this
          else set_col_alignment colAlign (Shift (MRRank g) colAlign (Width g)) this)"

definition AlignWith_MR_MC ::
  "build \<Rightarrow> 'a DistMatrix \<Rightarrow> 'b DistMatrix \<Rightarrow> ('a DistMatrix, 'a DistMatrix) outcome" where
  "AlignWith_MR_MC b this A =
     (case debug_checks b [AssertFreeColAlignment this, AssertSameGrid this A] of
        Some e \<Rightarrow> Thrown e this
      | None \<Rightarrow> set_col_alignment (colAlignment A) (colShift A) this)"

definition AlignWith_MR_STAR ::
  "build \<Rightarrow> 'a DistMatrix \<Rightarrow> 'b DistMatrix \<Rightarrow> ('a DistMatrix, 'a DistMatrix) outcome" where
  "AlignWith_MR_STAR b this A =
     (case debug_checks b [AssertFreeColAlignment this, AssertSameGrid this A] of
        Some e \<Rightarrow> Thrown e this
      | None \<Rightarrow> set_col_alignment (colAlignment A) (colShift A) this)"

definition AlignWith_MC_MR ::
  "build \<Rightarrow> 'a DistMatrix \<Rightarrow> 'b DistMatrix \<Rightarrow> ('a DistMatrix, 'a DistMatrix) outcome" where
  "AlignWith_MC_MR b this A =
     (case debug_checks b [AssertFreeColAlignment this, AssertSameGrid this A] of
        Some e \<Rightarrow> Thrown e this
      | None \<Rightarrow> set_col_alignment (rowAlignment A) (rowShift A) this)"

definition AlignWith_STAR_MR ::
  "build \<Rightarrow> 'a DistMatrix \<Rightarrow> 'b DistMatrix \<Rightarrow> ('a DistMatrix, 'a DistMatrix) outcome" where
  "AlignWith_STAR_MR b this A =
     (case debug_checks b [AssertFreeColAlignment this, AssertSameGrid this A] of
        Some e \<Rightarrow> Thrown e this
      | None \<Rightarrow> set_col_alignment (rowAlignment A) (rowShift A) this)"

definition AlignWith_VR_STAR ::
  "build \<Rightarrow> 'a DistMatrix \<Rightarrow> 'b DistMatrix \<Rightarrow> ('a DistMatrix, 'a DistMatrix) outcome" where
  \<comment> \<open>\<open>this->_colAlignment = A.ColAlignment();\<close> then
      \<open>this->_colShift = Shift( g.MRRank(), this->ColAlignment(), g.Width() );\<close>\<close>
  "AlignWith_VR_STAR b this A =
     (case debug_checks b [AssertFreeColAlignment this, AssertSameGrid this A] of
        Some e \<Rightarrow> Thrown e this
      | None \<Rightarrow>
          let g = grid this in
          set_col_alignment (colAlignment A) (Shift (MRRank g) (colAlignment A) (Width g)) this)"

definition AlignWith_STAR_VR ::
  "build \<Rightarrow> 'a DistMatrix \<Rightarrow> 'b DistMatrix \<Rightarrow> ('a DistMatrix, 'a DistMatrix) outcome" where
  "AlignWith_STAR_VR b this A =
     (case debug_checks b [AssertFreeColAlignment this, AssertSameGrid this A] of
        Some e \<Rightarrow> Thrown e this
      | None \<Rightarrow>
          let g = grid this in
          set_col_alignment (rowAlignment A) (Shift (MRRank g) (rowAlignment A) (Width g)) this)"


definition View_sub ::
  "build \<Rightarrow> bool \<Rightarrow> 'a DistMatrix \<Rightarrow> 'a DistMatrix \<Rightarrow> int \<Rightarrow> int \<Rightarrow> int \<Rightarrow> int
   \<Rightarrow> ('a DistMatrix, 'a DistMatrix) outcome" where
  \<comment> \<open>\<open>View( A, i, j, height, width )\<close> when \<open>locked\<close> is false and
      \<open>LockedView( A, i, j, height, width )\<close> when it is true.\<close>
  "View_sub b locked this A i j h w =
     (case debug_checks b
             [AssertFreeColAlignment this, AssertNotStoringData this, AssertSameGrid this A,
              AssertValidSubmatrix this A i j h w] of
        Some e \<Rightarrow> Thrown e this
      | None \<Rightarrow>
          let g = grid this;
              c = Width g;
              col = MRRank g;
              newAlignment = (colAlignment A + i) smod c;
              newShift = Shift col newAlignment c;
              localHeightBefore = LocalLength i (colShift A) c;
              localHeight = LocalLength h newShift c
          in Returned (this\<lparr>height := h, width := w,
                            colAlignment := newAlignment, colShift := newShift,
                            localMatrix := Matrix_View (localMatrix A) localHeightBefore j
                                             localHeight w,
                            viewing := True, lockedView := locked\<rparr>))"

definition ResizeTo ::
  "build \<Rightarrow> int \<Rightarrow> int \<Rightarrow> 'a DistMatrix \<Rightarrow> ('a DistMatrix, 'a DistMatrix) outcome" where
  "ResizeTo b h w this =
     (case debug_checks b
             [AssertNotLockedView this,
              if h < 0 \<or> w < 0
              then Some (logic_error ''Height and width must be non-negative.'') else None] of
        Some e \<Rightarrow> Thrown e this
      | None \<Rightarrow>
          local_ResizeTo (LocalLength h (colShift this) (Width (grid this))) w
            (this\<lparr>height := h, width := w\<rparr>))"

section \<open>Entrywise access\<close>

text \<open>
  A distributed matrix is the family of the objects that the processes hold, indexed by
  the process's row and column in the grid. The members of the communicator \<open>MRComm\<close> of a
  process are the processes of its grid row, ranked by their grid column; those of
  \<open>MCComm\<close> are the processes of its grid column, ranked by their grid row.
\<close>

datatype 'v delivery = Delivered 'v | NoMatch | Failed error






section \<open>Redistribution by assignment\<close>

definition assign_checks :: "build \<Rightarrow> 'a DistMatrix \<Rightarrow> 'b DistMatrix \<Rightarrow> error option" where
  \<comment> \<open>The \<open>#ifndef RELEASE\<close> block that opens every \<open>operator=\<close>:
      \<open>AssertNotLockedView\<close>, \<open>AssertSameGrid( A )\<close> and, for a view,
      \<open>AssertSameSize( A )\<close>.\<close>
  "assign_checks b this A =
     debug_checks b
       [AssertNotLockedView this, AssertSameGrid this A,
        if viewing this then AssertSameSize this A else None]"

definition assign_from_MD_STAR ::
  "build \<Rightarrow> 'a DistMatrix \<Rightarrow> 'a DistMatrix
   \<Rightarrow> ('a DistMatrix \<times> mpi_call list, 'a DistMatrix \<times> mpi_call list) outcome" where
  \<comment> \<open>\<open>operator=( const DistMatrixBase<T,MD,STAR>& A )\<close>\<close>
  "assign_from_MD_STAR b this A =
     (case assign_checks b this A of
        Some e \<Rightarrow> Thrown e (this, [])
      | None \<Rightarrow> Thrown (logic_error ''[MR,* ] = [MD,* ] not yet implemented.'') (this, []))"

definition assign_from_STAR_MD ::
  "build \<Rightarrow> 'a DistMatrix \<Rightarrow> 'a DistMatrix
   \<Rightarrow> ('a DistMatrix \<times> mpi_call list, 'a DistMatrix \<times> mpi_call list) outcome" where
  \<comment> \<open>\<open>operator=( const DistMatrixBase<T,STAR,MD>& A )\<close>\<close>
  "assign_from_STAR_MD b this A =
     (case assign_checks b this A of
        Some e \<Rightarrow> Thrown e (this, [])
      | None \<Rightarrow> Thrown (logic_error ''[MR,* ] = [* ,MD] not yet implemented.'') (this, []))"

subsection \<open>Loops, buffers and communication\<close>

definition for_loop :: "int \<Rightarrow> (int \<Rightarrow> 's \<Rightarrow> 's) \<Rightarrow> 's \<Rightarrow> 's" where
  \<comment> \<open>\<open>for( int k=0; k<n; ++k ) body\<close>, the body acting on the state \<open>s\<close>.\<close>
  "for_loop n body s = fold (\<lambda>k. body (int k)) [0..<nat n] s"

definition memcpy_from_col :: "'a buf \<Rightarrow> int \<Rightarrow> 'a Matrix \<Rightarrow> int \<Rightarrow> int \<Rightarrow> 'a buf" where
  \<comment> \<open>\<open>memcpy( &dst[d], &ALocalBuffer[j*ALDim], n*sizeof(T) )\<close>: the first \<open>n\<close> rows of
      column \<open>j\<close> of a local matrix go to the buffer at offset \<open>d\<close>.\<close>
  "memcpy_from_col dst d m j n =
     (\<lambda>k. if d \<le> k \<and> k < d + n then mentry m (k - d) j else dst k)"

definition memcpy_to_col :: "'a Matrix \<Rightarrow> int \<Rightarrow> 'a buf \<Rightarrow> int \<Rightarrow> int \<Rightarrow> 'a Matrix" where
  \<comment> \<open>\<open>memcpy( &thisLocalBuffer[j*thisLDim], &src[s], n*sizeof(T) )\<close>: \<open>n\<close> cells of the
      buffer at offset \<open>s\<close> go to the first \<open>n\<close> rows of column \<open>j\<close>.\<close>
  "memcpy_to_col m j src s n =
     m\<lparr>mentry := (\<lambda>i j'. if j' = j \<and> 0 \<le> i \<and> i < n then src (s + i) else mentry m i j')\<rparr>"

definition Matrix_copy :: "'a Matrix \<Rightarrow> 'a Matrix \<Rightarrow> 'a Matrix" where
  \<comment> \<open>Modelled from the spec: \<open>this->_localMatrix = A.LockedLocalMatrix()\<close>, local storage
      is copied; the target keeps its own view flag.\<close>
  "Matrix_copy m A = m\<lparr>mheight := mheight A, mwidth := mwidth A, mentry := mentry A\<rparr>"

record 'a SendRecv_args =
  sendBuf :: "'a buf"
  sendCount :: int
  dest :: int
  recvCount :: int
  source :: int

definition mpi_SendRecv ::
  "int \<Rightarrow> (int \<Rightarrow> 'a SendRecv_args option) \<Rightarrow> int \<Rightarrow> 'a SendRecv_args \<Rightarrow> 'a buf delivery" where
  \<comment> \<open>Modelled from the spec: one paired send/receive within a communicator of \<open>n\<close>
      processes. \<open>members k\<close> holds the arguments of the matching call of rank \<open>k\<close>
      (\<open>None\<close> when it never makes the call). The caller \<open>me\<close> completes when its
      destination receives from it and its source sends to it, and then holds the message
      of its source; a message longer than the receive buffer is an error.\<close>
  "mpi_SendRecv n members me args =
     (if dest args < 0 \<or> n \<le> dest args \<or> source args < 0 \<or> n \<le> source args
      then Failed (mpi_error ''Invalid rank.'')
      else case (members (dest args), members (source args)) of
             (Some dargs, Some sargs) \<Rightarrow>
               if source dargs \<noteq> me \<or> dest sargs \<noteq> me then NoMatch
               else if recvCount args < sendCount sargs
               then Failed (mpi_error ''Message truncated.'')
               else Delivered (\<lambda>k. if 0 \<le> k \<and> k < sendCount sargs then sendBuf sargs k else None)
           | _ \<Rightarrow> NoMatch)"

definition mpi_AllGather ::
  "int \<Rightarrow> (int \<Rightarrow> (int \<times> 'a buf) option) \<Rightarrow> int \<Rightarrow> 'a buf delivery" where
  \<comment> \<open>Modelled from the spec: an all-gather within a communicator of \<open>n\<close> processes
      assembles every process's portion on every participant. \<open>members k\<close> holds the
      portion size and the send buffer of the matching call of rank \<open>k\<close>; the call
      completes when every rank makes it with the caller's portion size.\<close>
  "mpi_AllGather n members count =
     (if list_all (\<lambda>k. case members k of Some (cnt, buf) \<Rightarrow> cnt = count | None \<Rightarrow> False)
           [0..n - 1]
      then Delivered (\<lambda>t. if 0 \<le> t \<and> t < n * count
                          then (case members (t sdiv count) of
                                  Some (cnt, buf) \<Rightarrow> buf (t smod count)
                                | None \<Rightarrow> None)
                          else None)
      else NoMatch)"

subsection \<open>[MR,*] from [MR,*]\<close>

definition resize_for_MR_STAR ::
  "build \<Rightarrow> 'a DistMatrix \<Rightarrow> 'a DistMatrix \<Rightarrow> ('a DistMatrix, 'a DistMatrix) outcome" where
  \<comment> \<open>The start of \<open>operator=( const DistMatrixBase<T,MR,STAR>& A )\<close>: the assertions, and
      for a target that is not a view the adoption of the source's alignment when the
      target's is free, then \<open>ResizeTo( A.Height(), A.Width() )\<close>.\<close>
  "resize_for_MR_STAR b this A =
     (case assign_checks b this A of
        Some e \<Rightarrow> Thrown e this
      | None \<Rightarrow>
          if \<not> viewing this
          then ResizeTo b (height A) (width A)
                 (if \<not> constrainedColAlignment this
                  then this\<lparr>colAlignment := colAlignment A, colShift := colShift A\<rparr>
                  else this)
          else Returned this)"

definition pack_MR_STAR :: "'a DistMatrix \<Rightarrow> 'a DistMatrix \<Rightarrow> 'a SendRecv_args" where
  \<comment> \<open>The unaligned branch up to the communication: ranks, sizes and the packed buffer.\<close>
  "pack_MR_STAR this A =
     (let g = grid this;
          rank = MRRank g;
          c = Width g;
          sendRank = int32 (rank + c + colAlignment this - colAlignment A) smod c;
          recvRank = int32 (rank + c + colAlignment A - colAlignment this) smod c;
          localHeight = LocalHeight this;
          localHeightOfA = LocalHeight A;
          sendSize = int32 (localHeightOfA * width this);
          recvSize = int32 (localHeight * width this);
          sendBuffer = for_loop (width this)
                         (\<lambda>j buf. memcpy_from_col buf (int32 (j * localHeightOfA))
                                     (localMatrix A) j localHeightOfA)
                         (\<lambda>k. None)
      in \<lparr>sendBuf = sendBuffer, sendCount = sendSize, dest = sendRank,
          recvCount = recvSize, source = recvRank\<rparr>)"

definition unpack_MR_STAR :: "'a DistMatrix \<Rightarrow> 'a buf \<Rightarrow> 'a DistMatrix" where
  "unpack_MR_STAR this recvBuffer =
     (let localHeight = LocalHeight this
      in this\<lparr>localMatrix :=
                for_loop (width this)
                  (\<lambda>j m. memcpy_to_col m j recvBuffer (int32 (j * localHeight)) localHeight)
                  (localMatrix this)\<rparr>)"

definition assign_from_MR_STAR ::
  "build \<Rightarrow> (int \<times> int \<Rightarrow> 'a DistMatrix) \<Rightarrow> (int \<times> int \<Rightarrow> 'a DistMatrix) \<Rightarrow> int \<times> int
   \<Rightarrow> ('a DistMatrix \<times> mpi_call list, 'a DistMatrix \<times> mpi_call list) outcome" where
  \<comment> \<open>\<open>operator=( const DistMatrixBase<T,MR,STAR>& A )\<close> as run by the process \<open>q\<close>, the
      other processes of its grid row running the same call on their parts.\<close>
  "assign_from_MR_STAR b this A q =
     (case resize_for_MR_STAR b (this q) (A q) of
        Thrown e s \<Rightarrow> Thrown e (s, [])
      | Blocked s \<Rightarrow> Blocked (s, [])
      | Returned t \<Rightarrow>
          if colAlignment t = colAlignment (A q)
          then Returned (t\<lparr>localMatrix := Matrix_copy (localMatrix t) (localMatrix (A q))\<rparr>, [])
          else
            let args = pack_MR_STAR t (A q);
                members =
                  (\<lambda>k. case resize_for_MR_STAR b (this (fst q, k)) (A (fst q, k)) of
                         Returned t' \<Rightarrow>
                           if colAlignment t' = colAlignment (A (fst q, k)) then None
                           else Some (pack_MR_STAR t' (A (fst q, k)))
                       | _ \<Rightarrow> None);
                call = SendRecv (sendCount args) (dest args) (recvCount args) (source args) MRComm
            in case mpi_SendRecv (Width (grid t)) members (MRRank (grid t)) args of
                 Delivered recvBuffer \<Rightarrow> Returned (unpack_MR_STAR t recvBuffer, [call])
               | NoMatch \<Rightarrow> Blocked (t, [call])
               | Failed e \<Rightarrow> Thrown e (t, [call]))"

subsection \<open>[MR,*] from [VR,*] and from [MR,MC]\<close>

text \<open>
  Both operators pack the local data of the source, bring it to the target's alignment by
  one \<open>SendRecv\<close> when the alignments differ, gather the portions of the processes of the
  grid column by one \<open>AllGather\<close> over \<open>MCComm\<close>, and unpack. What a process has computed
  when it reaches the communication is its plan.
\<close>

record 'a gather_plan =
  plan_aligned :: bool
  portionSize :: int
  packed :: "'a buf"
  sendRank :: int
  recvRank :: int

definition plan_args :: "'a gather_plan \<Rightarrow> 'a SendRecv_args" where
  \<comment> \<open>\<open>mpi::SendRecv( secondBuffer, portionSize, sendRank, 0,
      firstBuffer, portionSize, recvRank, mpi::ANY_TAG, comm )\<close>\<close>
  "plan_args pl =
     \<lparr>sendBuf = packed pl, sendCount = portionSize pl, dest = sendRank pl,
      recvCount = portionSize pl, source = recvRank pl\<rparr>"

definition exchanged ::
  "comm \<Rightarrow> (int \<times> int \<Rightarrow> ('a DistMatrix \<times> 'a gather_plan) option) \<Rightarrow> int \<times> int
   \<Rightarrow> 'a buf delivery" where
  \<comment> \<open>The buffer that the process \<open>q\<close> passes to the all-gather: its packed data when
      the alignments agree, and what its \<open>SendRecv\<close> over the communicator \<open>sc\<close> delivers
      otherwise. The rank \<open>k\<close> of \<open>VRComm\<close> is the process of grid row \<open>k / c\<close> and grid
      column \<open>k % c\<close>; the rank \<open>k\<close> of \<open>MRComm\<close> is the process of column \<open>k\<close> in the
      caller's grid row.\<close>
  "exchanged sc reached q =
     (case reached q of
        None \<Rightarrow> NoMatch
      | Some (t, pl) \<Rightarrow>
          if plan_aligned pl then Delivered (packed pl)
          else
            let g = grid t;
                n = (if sc = VRComm then Size g else Width g);
                me = (if sc = VRComm then VRRank g else MRRank g);
                members =
                  (\<lambda>k. case reached (if sc = VRComm then (k sdiv Width g, k smod Width g)
                                     else (fst q, k)) of
                         Some (t', pl') \<Rightarrow> if plan_aligned pl' then None else Some (plan_args pl')
                       | None \<Rightarrow> None)
            in mpi_SendRecv n members me (plan_args pl))"

definition gather_protocol ::
  "comm \<Rightarrow> (int \<times> int \<Rightarrow> ('a DistMatrix \<times> 'a gather_plan) option)
   \<Rightarrow> ('a DistMatrix \<Rightarrow> int \<Rightarrow> 'a buf \<Rightarrow> 'a DistMatrix)
   \<Rightarrow> int \<times> int \<Rightarrow> 'a DistMatrix \<Rightarrow> 'a gather_plan
   \<Rightarrow> ('a DistMatrix \<times> mpi_call list, 'a DistMatrix \<times> mpi_call list) outcome" where
  \<comment> \<open>The communication and the unpacking, as run by the process \<open>q\<close> that has reached
      them with the object \<open>t\<close> and the plan \<open>pl\<close>.\<close>
  "gather_protocol sc reached unpack q t pl =
     (let sr = (if plan_aligned pl then []
                else [SendRecv (portionSize pl) (sendRank pl) (portionSize pl) (recvRank pl) sc]);
          ag = AllGather (portionSize pl) (portionSize pl) MCComm;
          members =
            (\<lambda>k. case reached (k, snd q) of
                   Some (t', pl') \<Rightarrow>
                     (case exchanged sc reached (k, snd q) of
                        Delivered buf \<Rightarrow> Some (portionSize pl', buf)
                      | _ \<Rightarrow> None)
                 | None \<Rightarrow> None)
      in case exchanged sc reached q of
           NoMatch \<Rightarrow> Blocked (t, sr)
         | Failed e \<Rightarrow> Thrown e (t, sr)
         | Delivered firstBuffer \<Rightarrow>
             (case mpi_AllGather (Height (grid t)) members (portionSize pl) of
                Delivered gathered \<Rightarrow> Returned (unpack t (portionSize pl) gathered, sr @ [ag])
              | NoMatch \<Rightarrow> Blocked (t, sr @ [ag])
              | Failed e \<Rightarrow> Thrown e (t, sr @ [ag])))"

definition resize_for_VR_STAR ::
  "build \<Rightarrow> 'a DistMatrix \<Rightarrow> 'a DistMatrix \<Rightarrow> ('a DistMatrix, 'a DistMatrix) outcome" where
  \<comment> \<open>The start of \<open>operator=( const DistMatrixBase<T,VR,STAR>& A )\<close>: a free alignment
      becomes \<open>A.ColAlignment() % g.Width()\<close>.\<close>
  "resize_for_VR_STAR b this A =
     (case assign_checks b this A of
        Some e \<Rightarrow> Thrown e this
      | None \<Rightarrow>
          let g = grid this in
          if \<not> viewing this
          then ResizeTo b (height A) (width A)
                 (if \<not> constrainedColAlignment this
                  then this\<lparr>colAlignment := colAlignment A smod Width g,
                            colShift := Shift (MRRank g) (colAlignment A smod Width g) (Width g)\<rparr>
                  else this)
          else Returned this)"

definition plan_VR_STAR :: "build \<Rightarrow> 'a DistMatrix \<Rightarrow> 'a DistMatrix \<Rightarrow> 'a gather_plan" where
  "plan_VR_STAR b this A =
     (let g = grid this;
          c = Width g;
          p = Size g;
          rank = VRRank g;
          localHeightOfA = LocalHeight A;
          maxLocalHeightOfA = MaxLocalLength (height this) p
      in \<lparr>plan_aligned = (colAlignment this = colAlignment A smod c),
          portionSize = max (maxLocalHeightOfA * width this) (MIN_COLL_MSG b),
          packed = for_loop (width this)
                     (\<lambda>j buf. memcpy_from_col buf (j * localHeightOfA) (localMatrix A) j
                                 localHeightOfA)
                     (\<lambda>k. None),
          sendRank = (rank + p + colAlignment this - colAlignment A) smod p,
          recvRank = (rank + p + colAlignment A - colAlignment this) smod p\<rparr>)"

definition unpack_VR_STAR ::
  "'a DistMatrix \<Rightarrow> 'a DistMatrix \<Rightarrow> int \<Rightarrow> 'a buf \<Rightarrow> 'a DistMatrix" where
  \<comment> \<open>The two unpack loops differ in the alignment given to \<open>RawShift\<close>: the source's
      when the alignments agree, the target's after the \<open>SendRecv\<close>.\<close>
  "unpack_VR_STAR this A portion gathered =
     (let g = grid this;
          r = Height g;
          c = Width g;
          p = Size g;
          col = MRRank g;
          alignment = (if colAlignment this = colAlignment A smod c
                       then colAlignment A else colAlignment this)
      in this\<lparr>localMatrix :=
           for_loop r
             (\<lambda>k m.
                let colShiftOfA = RawShift (col + c * k) alignment p;
                    colOffset = (colShiftOfA - colShift this) sdiv c;
                    localHeight = RawLocalLength (height this) colShiftOfA p
                in for_loop (width this)
                     (\<lambda>j. for_loop localHeight
                            (\<lambda>iLocal m'. set_entry m' (colOffset + iLocal * r) j
                               (gathered (k * portion + (iLocal + j * localHeight)))))
                     m)
             (localMatrix this)\<rparr>)"

definition assign_from_VR_STAR ::
  "build \<Rightarrow> (int \<times> int \<Rightarrow> 'a DistMatrix) \<Rightarrow> (int \<times> int \<Rightarrow> 'a DistMatrix) \<Rightarrow> int \<times> int
   \<Rightarrow> ('a DistMatrix \<times> mpi_call list, 'a DistMatrix \<times> mpi_call list) outcome" where
  \<comment> \<open>\<open>operator=( const DistMatrixBase<T,VR,STAR>& A )\<close> as run by the process \<open>q\<close>.\<close>
  "assign_from_VR_STAR b this A q =
     (case resize_for_VR_STAR b (this q) (A q) of
        Thrown e s \<Rightarrow> Thrown e (s, [])
      | Blocked s \<Rightarrow> Blocked (s, [])
      | Returned t \<Rightarrow>
          gather_protocol VRComm
            (\<lambda>q'. case resize_for_VR_STAR b (this q') (A q') of
                    Returned t' \<Rightarrow> Some (t', plan_VR_STAR b t' (A q'))
                  | _ \<Rightarrow> None)
            (\<lambda>t'. unpack_VR_STAR t' (A q))
            q t (plan_VR_STAR b t (A q)))"

definition resize_for_MR_MC ::
  "build \<Rightarrow> 'a DistMatrix \<Rightarrow> 'a DistMatrix \<Rightarrow> ('a DistMatrix, 'a DistMatrix) outcome" where
  \<comment> \<open>The start of \<open>operator=( const DistMatrixBase<T,MR,MC>& A )\<close>.\<close>
  "resize_for_MR_MC b this A =
     (case assign_checks b this A of
        Some e \<Rightarrow> Thrown e this
      | None \<Rightarrow>
          let g = grid this in
          if \<not> viewing this
          then ResizeTo b (height A) (width A)
                 (if \<not> constrainedColAlignment this
                  then this\<lparr>colAlignment := colAlignment A,
                            colShift := Shift (MRRank g) (colAlignment A) (Width g)\<rparr>
                  else this)
          else Returned this)"

definition plan_MR_MC :: "build \<Rightarrow> 'a DistMatrix \<Rightarrow> 'a DistMatrix \<Rightarrow> 'a gather_plan" where
  \<comment> \<open>In the aligned branch the portion is sized and the columns are packed with the
      target's local height; in the other branch with the largest local height and the
      source's local height.\<close>
  "plan_MR_MC b this A =
     (let g = grid this;
          r = Height g;
          c = Width g;
          col = MRRank g;
          isAligned = (colAlignment this = colAlignment A);
          localHeight = LocalHeight this;
          localHeightOfA = LocalHeight A;
          localWidthOfA = LocalWidth A;
          maxLocalHeight = MaxLocalLength (height this) c;
          maxLocalWidth = MaxLocalLength (width this) r;
          packHeight = (if isAligned then localHeight else localHeightOfA)
      in \<lparr>plan_aligned = isAligned,
          portionSize = (if isAligned then max (localHeight * maxLocalWidth) (MIN_COLL_MSG b)
                         else max (maxLocalHeight * maxLocalWidth) (MIN_COLL_MSG b)),
          packed = for_loop localWidthOfA
                     (\<lambda>jLocal buf. memcpy_from_col buf (jLocal * packHeight) (localMatrix A)
                                      jLocal packHeight)
                     (\<lambda>k. None),
          sendRank = (col + c + colAlignment this - colAlignment A) smod c,
          recvRank = (col + c + colAlignment A - colAlignment this) smod c\<rparr>)"

definition unpack_MR_MC ::
  "'a DistMatrix \<Rightarrow> 'a DistMatrix \<Rightarrow> int \<Rightarrow> 'a buf \<Rightarrow> 'a DistMatrix" where
  "unpack_MR_MC this A portion gathered =
     (let r = Height (grid this);
          localHeight = LocalHeight this
      in this\<lparr>localMatrix :=
           for_loop r
             (\<lambda>k m.
                let rowShift = RawShift k (rowAlignment A) r;
                    localWidth = RawLocalLength (width this) rowShift r
                in for_loop localWidth
                     (\<lambda>jLocal m'. memcpy_to_col m' (rowShift + jLocal * r) gathered
                                     (k * portion + jLocal * localHeight) localHeight)
                     m)
             (localMatrix this)\<rparr>)"

definition assign_from_MR_MC ::
  "build \<Rightarrow> (int \<times> int \<Rightarrow> 'a DistMatrix) \<Rightarrow> (int \<times> int \<Rightarrow> 'a DistMatrix) \<Rightarrow> int \<times> int
   \<Rightarrow> ('a DistMatrix \<times> mpi_call list, 'a DistMatrix \<times> mpi_call list) outcome" where
  \<comment> \<open>\<open>operator=( const DistMatrixBase<T,MR,MC>& A )\<close> as run by the process \<open>q\<close>.\<close>
  "assign_from_MR_MC b this A q =
     (case resize_for_MR_MC b (this q) (A q) of
        Thrown e s \<Rightarrow> Thrown e (s, [])
      | Blocked s \<Rightarrow> Blocked (s, [])
      | Returned t \<Rightarrow>
          gather_protocol MRComm
            (\<lambda>q'. case resize_for_MR_MC b (this q') (A q') of
                    Returned t' \<Rightarrow> Some (t', plan_MR_MC b t' (A q'))
                  | _ \<Rightarrow> None)
            (\<lambda>t'. unpack_MR_MC t' (A q))
            q t (plan_MR_MC b t (A q)))"

section \<open>Well-formed distributed matrices\<close>

definition MR_STAR_inv :: "'a DistMatrix \<Rightarrow> bool" where
  \<comment> \<open>What a process holds of an [MR,*] matrix: an alignment below the stride, the shift
      of the process, and a local matrix of the local length by the global width.\<close>
  "MR_STAR_inv d =
     (let g = grid d in
      0 \<le> MRRank g \<and> MRRank g < Width g
      \<and> 0 \<le> colAlignment d \<and> colAlignment d < Width g
      \<and> colShift d = Shift (MRRank g) (colAlignment d) (Width g)
      \<and> 0 \<le> height d \<and> 0 \<le> width d
      \<and> mheight (localMatrix d) = LocalLength (height d) (colShift d) (Width g)
      \<and> mwidth (localMatrix d) = width d
      \<and> mviewing (localMatrix d) = viewing d)"

definition MR_aligned_cols :: "'a DistMatrix \<Rightarrow> bool" where
  \<comment> \<open>The column alignment of a matrix whose rows are dealt to the grid columns
      ([MR,MC] and [MR,*]): an alignment below the grid width, with the shift of the process.\<close>
  "MR_aligned_cols A =
     (0 \<le> colAlignment A \<and> colAlignment A < Width (grid A)
      \<and> colShift A = Shift (MRRank (grid A)) (colAlignment A) (Width (grid A)))"

definition MR_aligned_rows :: "'a DistMatrix \<Rightarrow> bool" where
  \<comment> \<open>The row alignment of a matrix whose columns are dealt to the grid columns
      ([MC,MR] and [*,MR]).\<close>
  "MR_aligned_rows A =
     (0 \<le> rowAlignment A \<and> rowAlignment A < Width (grid A)
      \<and> rowShift A = Shift (MRRank (grid A)) (rowAlignment A) (Width (grid A)))"



definition MR_STAR_target ::
  "int \<Rightarrow> int \<Rightarrow> (int \<times> int \<Rightarrow> 'a DistMatrix) \<Rightarrow> int \<Rightarrow> bool" where
  \<comment> \<open>An [MR,*] target on every process of the grid: not a view, owning its storage, with
      the column alignment constrained to \<open>b\<close>, as \<open>AlignCols\<close> leaves it.\<close>
  "MR_STAR_target r c T b =
     (0 \<le> b \<and> b < c
      \<and> (\<forall>row\<in>set [0..r - 1]. \<forall>col\<in>set [0..c - 1].
            grid (T (row, col)) = \<lparr>Height = r, Width = c, MCRank = row, MRRank = col\<rparr>
            \<and> \<not> viewing (T (row, col)) \<and> \<not> mviewing (localMatrix (T (row, col)))
            \<and> constrainedColAlignment (T (row, col))
            \<and> colAlignment (T (row, col)) = b
            \<and> colShift (T (row, col)) = Shift col b c))"

definition source_family ::
  "int \<Rightarrow> int \<Rightarrow> (int \<times> int \<Rightarrow> 'a DistMatrix) \<Rightarrow> int \<Rightarrow> int \<Rightarrow> int \<Rightarrow> int \<Rightarrow> bool" where
  \<comment> \<open>What the conversions read from the descriptor of a source on every process of the
      grid: the global shape \<open>H \<times> W\<close> and its column and row alignments.\<close>
  "source_family r c A H W ca ra =
     (0 \<le> H \<and> 0 \<le> W
      \<and> (\<forall>row\<in>set [0..r - 1]. \<forall>col\<in>set [0..c - 1].
            grid (A (row, col)) = \<lparr>Height = r, Width = c, MCRank = row, MRRank = col\<rparr>
            \<and> height (A (row, col)) = H \<and> width (A (row, col)) = W
            \<and> colAlignment (A (row, col)) = ca \<and> rowAlignment (A (row, col)) = ra))"

definition assigned :: "('s \<times> mpi_call list, 'x) outcome \<Rightarrow> 's" where
  \<comment> \<open>The object that a returning call leaves.\<close>
  "assigned out = fst (result out)"

definition cyclic_MR_STAR ::
  "int \<Rightarrow> int \<Rightarrow> int \<Rightarrow> int \<Rightarrow> int \<Rightarrow> (int \<Rightarrow> int \<Rightarrow> 'a) \<Rightarrow> int \<times> int \<Rightarrow> 'a DistMatrix" where
  \<comment> \<open>The parts of the global matrix \<open>M\<close> of shape \<open>H \<times> W\<close> that the processes of the
      \<open>r \<times> c\<close> grid own under the [MR,*] distribution with column alignment \<open>a\<close>.\<close>
  "cyclic_MR_STAR r c H W a M =
     (\<lambda>(row, col).
        let s = Shift col a c in
        \<lparr>grid = \<lparr>Height = r, Width = c, MCRank = row, MRRank = col\<rparr>,
         height = H, width = W, colAlignment = a, rowAlignment = 0,
         colShift = s, rowShift = 0,
         constrainedColAlignment = True, constrainedRowAlignment = False,
         viewing = False, lockedView = False,
         localMatrix =
           \<lparr>mheight = LocalLength H s c, mwidth = W, mviewing = False,
            mentry = (\<lambda>iLocal j.
                        if 0 \<le> iLocal \<and> iLocal < LocalLength H s c \<and> 0 \<le> j \<and> j < W
                        then Some (M (s + iLocal * c) j) else None)\<rparr>\<rparr>)"

definition empty_DistMatrix :: "Grid \<Rightarrow> 'a DistMatrix" where
  \<comment> \<open>Modelled from the spec: a matrix created over a grid as an empty shell, with
      alignment 0 and nothing constrained.\<close>
  "empty_DistMatrix g =
     \<lparr>grid = g, height = 0, width = 0, colAlignment = 0, rowAlignment = 0,
      colShift = Shift (MRRank g) 0 (Width g), rowShift = 0,
      constrainedColAlignment = False, constrainedRowAlignment = False,
      viewing = False, lockedView = False,
      localMatrix = \<lparr>mheight = 0, mwidth = 0, mviewing = False, mentry = (\<lambda>i j. None)\<rparr>\<rparr>"

definition aligned_MR_STAR :: "int \<Rightarrow> int \<Rightarrow> int \<Rightarrow> int \<times> int \<Rightarrow> 'a DistMatrix" where
  \<comment> \<open>An empty [MR,*] matrix after \<open>AlignCols( b )\<close>, on every process of the grid.\<close>
  "aligned_MR_STAR r c b =
     (\<lambda>(row, col).
        (empty_DistMatrix \<lparr>Height = r, Width = c, MCRank = row, MRRank = col\<rparr>)
          \<lparr>colAlignment := b, colShift := Shift col b c, constrainedColAlignment := True\<rparr>)"

definition cyclic_VR_STAR ::
  "int \<Rightarrow> int \<Rightarrow> int \<Rightarrow> int \<Rightarrow> int \<Rightarrow> (int \<Rightarrow> int \<Rightarrow> 'a) \<Rightarrow> int \<times> int \<Rightarrow> 'a DistMatrix" where
  \<comment> \<open>The parts of the global matrix \<open>M\<close> under the [VR,*] distribution with column
      alignment \<open>a\<close>: the rows are dealt cyclically to the \<open>r * c\<close> processes in the order
      of their row-major rank.\<close>
  "cyclic_VR_STAR r c H W a M =
     (\<lambda>(row, col).
        let g = \<lparr>Height = r, Width = c, MCRank = row, MRRank = col\<rparr>;
            s = Shift (VRRank g) a (r * c) in
        \<lparr>grid = g,
         height = H, width = W, colAlignment = a, rowAlignment = 0,
         colShift = s, rowShift = 0,
         constrainedColAlignment = True, constrainedRowAlignment = False,
         viewing = False, lockedView = False,
         localMatrix =
           \<lparr>mheight = LocalLength H s (r * c), mwidth = W, mviewing = False,
            mentry = (\<lambda>iLocal j.
                        if 0 \<le> iLocal \<and> iLocal < LocalLength H s (r * c) \<and> 0 \<le> j \<and> j < W
                        then Some (M (s + iLocal * (r * c)) j) else None)\<rparr>\<rparr>)"

definition example_MR_STAR :: "int \<times> int \<Rightarrow> int DistMatrix" where
  \<comment> \<open>The scenario of the spec: a 2 x 2 grid and the global 4 x 4 matrix with
      \<open>value(i,j) = 4i + j\<close>, here distributed as [MR,*] with alignment 0.\<close>
  "example_MR_STAR = cyclic_MR_STAR 2 2 4 4 0 (\<lambda>i j. 4 * i + j)"

definition debug_build :: build where
  "debug_build = \<lparr>RELEASE = False, MIN_COLL_MSG = 1\<rparr>"

definition release_build :: build where
  "release_build = \<lparr>RELEASE = True, MIN_COLL_MSG = 1\<rparr>"

definition same_shape :: "'a Matrix \<Rightarrow> 'a Matrix \<Rightarrow> bool" where
  \<comment> \<open>Two local matrices of the same height, width and view flag; writing entries keeps
      the shape.\<close>
  "same_shape m m' = (mheight m' = mheight m \<and> mwidth m' = mwidth m \<and> mviewing m' = mviewing m)"

definition example_empty_VR_STAR :: "int \<times> int \<Rightarrow> int DistMatrix" where
  \<comment> \<open>A 0 x 3 matrix, distributed as [VR,*] with alignment 0 over a 2 x 1 grid.\<close>
  "example_empty_VR_STAR = cyclic_VR_STAR 2 1 0 3 0 (\<lambda>i j. 0)"




section \<open>Properties of the model\<close>

subsection \<open>Facts about the index arithmetic\<close>

lemma sdiv_nonneg_eq_div: "0 \<le> a \<Longrightarrow> 0 < b \<Longrightarrow> a sdiv b = a div (b::int)"
  by (cases "a = 0") (simp_all add: signed_divide_int_def sgn_if)

lemma smod_nonneg_eq_mod: "0 \<le> a \<Longrightarrow> 0 < b \<Longrightarrow> a smod b = a mod (b::int)"
  by (cases "a = 0") (simp_all add: signed_modulo_int_def sgn_if)

lemma Shift_eq_mod:
  "0 \<le> rank \<Longrightarrow> alignment < stride \<Longrightarrow> 0 < stride \<Longrightarrow>
   Shift rank alignment stride = (rank - alignment) mod stride"
  by (simp add: Shift_def smod_nonneg_eq_mod)

lemma Shift_range:
  "0 \<le> rank \<Longrightarrow> alignment < stride \<Longrightarrow> 0 < stride \<Longrightarrow>
   0 \<le> Shift rank alignment stride \<and> Shift rank alignment stride < stride"
  by (simp add: Shift_eq_mod)

lemma LocalLength_ceiling:
  assumes "0 < stride"
  shows "LocalLength n shift stride = max 0 \<lceil>real_of_int (n - shift) / real_of_int stride\<rceil>"
proof -
  have "\<lceil>real_of_int (n - shift) / real_of_int stride\<rceil>
        = - \<lfloor>real_of_int (shift - n) / real_of_int stride\<rfloor>"
    by (simp add: ceiling_def minus_divide_left)
  also have "\<dots> = - ((shift - n) div stride)"
    by (simp only: floor_divide_of_int_eq)
  finally show ?thesis
    by (simp add: LocalLength_def)
qed

lemma div_pred_pos:
  fixes x d :: int
  assumes "0 < d"
  shows "(x - 1) div d = x div d - (if x mod d = 0 then 1 else 0)"
proof (cases "x mod d = 0")
  case True
  have e: "x - 1 = d * (x div d - 1) + (d - 1)"
    using mult_div_mod_eq [of d x] True by (simp add: algebra_simps)
  have "(x - 1) div d = (d * (x div d - 1) + (d - 1)) div d"
    by (rule arg_cong [where f = "\<lambda>y. y div d", OF e])
  also have "\<dots> = (x div d - 1) + (d - 1) div d"
    using assms by simp
  also have "(d - 1) div d = 0" using assms by simp
  finally show ?thesis using True by simp
next
  case False
  have m: "0 \<le> x mod d" "x mod d < d" using assms by simp_all
  with False have m1: "0 \<le> x mod d - 1" "x mod d - 1 < d" by simp_all
  have e: "x - 1 = d * (x div d) + (x mod d - 1)"
    using mult_div_mod_eq [of d x] by simp
  have "(x - 1) div d = (d * (x div d) + (x mod d - 1)) div d"
    by (rule arg_cong [where f = "\<lambda>y. y div d", OF e])
  also have "\<dots> = x div d + (x mod d - 1) div d"
    using assms by simp
  also have "(x mod d - 1) div d = 0" using m1 by simp
  finally show ?thesis using False by simp
qed

lemma unclamped_step:
  fixes n s d :: int
  assumes "0 < d"
  shows "- ((s - (n + 1)) div d) = - ((s - n) div d) + (if (s - n) mod d = 0 then 1 else 0)"
  using div_pred_pos [OF assms, of "s - n"] by (simp add: algebra_simps)

lemma unclamped_nonneg:
  fixes n s d :: int
  assumes "0 \<le> n" "s < d" "0 < d"
  shows "0 \<le> - ((s - n) div d)"
proof (cases "s - n < 0")
  case True
  then have "(s - n) div d < 0" using assms(3) by (simp add: pos_imp_zdiv_neg_iff)
  then show ?thesis by simp
next
  case False
  then have "(s - n) div d = 0" using assms by simp
  then show ?thesis by simp
qed

lemma LocalLength_zero: "0 \<le> s \<Longrightarrow> s < d \<Longrightarrow> LocalLength 0 s d = 0"
  by (simp add: LocalLength_def div_pos_pos_trivial)

lemma LocalLength_step:
  assumes "0 \<le> n" "0 \<le> s" "s < d"
  shows "LocalLength (n + 1) s d = LocalLength n s d + (if n mod d = s then 1 else 0)"
proof -
  have d: "0 < d" using assms by simp
  have eq: "((s - n) mod d = 0) = (n mod d = s)"
  proof
    assume "(s - n) mod d = 0"
    then have "s mod d = n mod d" by (simp add: mod_eq_dvd_iff dvd_eq_mod_eq_0)
    then show "n mod d = s" using assms by simp
  next
    assume "n mod d = s"
    then have "n mod d = s mod d" using assms by simp
    then show "(s - n) mod d = 0" by (metis mod_eq_dvd_iff dvd_eq_mod_eq_0)
  qed
  have a: "0 \<le> - ((s - n) div d)" using unclamped_nonneg [of n s d] assms d by simp
  have b: "0 \<le> - ((s - (n + 1)) div d)" using unclamped_nonneg [of "n + 1" s d] assms d by simp
  show ?thesis
    unfolding LocalLength_def using a b unclamped_step [OF d, of s n] eq
    by (simp add: max_def)
qed

lemma LocalLength_nonneg: "0 \<le> LocalLength n s d"
  by (simp add: LocalLength_def)

lemma residue_class_step:
  fixes n s d :: int
  assumes "0 \<le> n"
  shows "{i. 0 \<le> i \<and> i < n + 1 \<and> i mod d = s}
         = (if n mod d = s then insert n {i. 0 \<le> i \<and> i < n \<and> i mod d = s}
            else {i. 0 \<le> i \<and> i < n \<and> i mod d = s})"
  using assms by (auto simp: less_le)

lemma residue_class_finite: "finite {i::int. 0 \<le> i \<and> i < n \<and> i mod d = s}"
  by (rule finite_subset [of _ "{0..<n}"]) auto

lemma LocalLength_card:
  assumes "0 \<le> n" "0 \<le> s" "s < d"
  shows "LocalLength n s d = int (card {i. 0 \<le> i \<and> i < n \<and> i mod d = s})"
  using assms(1)
proof (induction n rule: int_ge_induct)
  case base
  have e: "{i::int. 0 \<le> i \<and> i < 0 \<and> i mod d = s} = {}" by auto
  show ?case unfolding e using assms by (simp add: LocalLength_zero)
next
  case (step n)
  let ?S = "\<lambda>m. {i. 0 \<le> i \<and> i < m \<and> i mod d = s}"
  have notin: "n \<notin> ?S n" by simp
  show ?case
  proof (cases "n mod d = s")
    case True
    have "?S (n + 1) = insert n (?S n)"
      unfolding residue_class_step [OF step.hyps] using True by simp
    then have "card (?S (n + 1)) = Suc (card (?S n))"
      using card_insert_disjoint [OF residue_class_finite notin] by (simp only:)
    then show ?thesis
      using step.IH LocalLength_step [OF step.hyps assms(2,3)] True by simp
  next
    case False
    have "?S (n + 1) = ?S n"
      unfolding residue_class_step [OF step.hyps] using False by simp
    then show ?thesis
      using step.IH LocalLength_step [OF step.hyps assms(2,3)] False by simp
  qed
qed

lemma indicator_sum_one:
  fixes d :: int
  assumes "0 < d"
  shows "(\<Sum>s\<in>{0..<d}. if n mod d = s then 1 else 0) = (1::int)"
proof -
  have "n mod d \<in> {0..<d}" using assms by simp
  then show ?thesis by (simp add: sum.delta)
qed

lemma LocalLength_sum:
  assumes "0 \<le> n" "0 < d"
  shows "(\<Sum>s\<in>{0..<d}. LocalLength n s d) = n"
  using assms(1)
proof (induction n rule: int_ge_induct)
  case base
  show ?case by (simp add: LocalLength_zero)
next
  case (step n)
  have "(\<Sum>s\<in>{0..<d}. LocalLength (n + 1) s d)
        = (\<Sum>s\<in>{0..<d}. LocalLength n s d + (if n mod d = s then 1 else 0))"
    by (rule sum.cong) (simp_all add: LocalLength_step step.hyps)
  also have "\<dots> = (\<Sum>s\<in>{0..<d}. LocalLength n s d) + (\<Sum>s\<in>{0..<d}. if n mod d = s then 1 else 0)"
    by (simp add: sum.distrib)
  finally show ?case
    using step.IH indicator_sum_one [OF assms(2), of n] by simp
qed

lemma div_less_of_less_mult:
  fixes x c m :: int
  assumes "0 < c" "x < c * m"
  shows "x div c < m"
proof (rule ccontr)
  assume "\<not> x div c < m"
  then have "m \<le> x div c" by simp
  then have "c * m \<le> c * (x div c)" using assms(1) by (simp add: mult_left_mono)
  moreover have "c * (x div c) \<le> x"
    using mult_div_mod_eq [of c x] pos_mod_sign [OF assms(1), of x] by linarith
  ultimately show False using assms(2) by linarith
qed




lemma debug_checks_None:
  "first_error cs = None \<Longrightarrow> debug_checks b cs = None"
  by (simp add: debug_checks_def)

lemma AssertValidEntry_ok:
  "0 \<le> i \<Longrightarrow> i < height d \<Longrightarrow> 0 \<le> j \<Longrightarrow> j < width d \<Longrightarrow> AssertValidEntry d i j = None"
  by (simp add: AssertValidEntry_def)




















lemma local_ResizeTo_owned:
  "\<not> mviewing (localMatrix d) \<Longrightarrow>
   local_ResizeTo h w d
     = Returned (d\<lparr>localMatrix := \<lparr>mheight = h, mwidth = w, mviewing = False,
                                     mentry = (\<lambda>i j. None)\<rparr>\<rparr>)"
  by (simp add: local_ResizeTo_def Matrix_ResizeTo_def)


lemma set_col_alignment_owned:
  "\<not> mviewing (localMatrix this) \<Longrightarrow>
   set_col_alignment a s this
     = Returned (this\<lparr>colAlignment := a, colShift := s, constrainedColAlignment := True,
                      height := 0, width := 0,
                      localMatrix := \<lparr>mheight = 0, mwidth = 0, mviewing = False,
                                      mentry = (\<lambda>i j. None)\<rparr>\<rparr>)"
  by (simp add: set_col_alignment_def local_ResizeTo_owned)

lemma constrained_checks:
  "\<not> RELEASE b \<Longrightarrow> constrainedColAlignment this \<Longrightarrow>
   debug_checks b (AssertFreeColAlignment this # cs)
     = Some (assertion ''Assertion that column alignment be free failed.'')"
  by (simp add: debug_checks_def AssertFreeColAlignment_def)

lemma permitted_checks:
  "RELEASE b \<or> \<not> constrainedColAlignment this \<Longrightarrow> grid A = grid this \<Longrightarrow>
   debug_checks b [AssertFreeColAlignment this] = None
   \<and> debug_checks b [AssertFreeColAlignment this, AssertSameGrid this A] = None"
  by (auto simp add: debug_checks_def AssertFreeColAlignment_def AssertSameGrid_def)

lemma for_loop_0: "n \<le> 0 \<Longrightarrow> for_loop n body s = s"
  by (simp add: for_loop_def)

lemma for_loop_step: "0 \<le> n \<Longrightarrow> for_loop (n + 1) body s = body n (for_loop n body s)"
  by (simp add: for_loop_def nat_add_distrib)

lemma for_loop_induct:
  assumes "P 0 s" and "\<And>k x. 0 \<le> k \<Longrightarrow> k < n \<Longrightarrow> P k x \<Longrightarrow> P (k + 1) (body k x)"
    and "0 \<le> n"
  shows "P n (for_loop n body s)"
proof -
  have "m \<le> n \<Longrightarrow> P m (for_loop m body s)" if "0 \<le> m" for m
    using that
  proof (induction m rule: int_ge_induct)
    case base
    show ?case using assms(1) by (simp add: for_loop_0)
  next
    case (step k)
    then show ?case using assms(2) [of k "for_loop k body s"] by (simp add: for_loop_step)
  qed
  then show ?thesis using assms(3) by simp
qed

lemma ResizeTo_owned:
  assumes "\<not> viewing this" "\<not> mviewing (localMatrix this)" "0 \<le> h" "0 \<le> w"
  shows "ResizeTo b h w this
          = Returned (this\<lparr>height := h, width := w,
                           localMatrix :=
                             \<lparr>mheight = LocalLength h (colShift this) (Width (grid this)),
                              mwidth = w, mviewing = False, mentry = (\<lambda>i j. None)\<rparr>\<rparr>)"
proof -
  have chk: "debug_checks b
             [AssertNotLockedView this,
              if h < 0 \<or> w < 0
              then Some (logic_error ''Height and width must be non-negative.'') else None] = None"
    using assms by (simp add: debug_checks_def AssertNotLockedView_def)
  show ?thesis
    unfolding ResizeTo_def chk using assms by (simp add: local_ResizeTo_owned)
qed

lemma target_at:
  assumes "MR_STAR_target r c T b" "0 \<le> row" "row < r" "0 \<le> col" "col < c"
  shows "grid (T (row, col)) = \<lparr>Height = r, Width = c, MCRank = row, MRRank = col\<rparr>"
    and "\<not> viewing (T (row, col))" and "\<not> mviewing (localMatrix (T (row, col)))"
    and "constrainedColAlignment (T (row, col))"
    and "colAlignment (T (row, col)) = b" and "colShift (T (row, col)) = Shift col b c"
  using assms by (simp_all add: MR_STAR_target_def)

lemma target_alignment:
  assumes "MR_STAR_target r c T b"
  shows "0 \<le> b" "b < c"
  using assms by (simp_all add: MR_STAR_target_def)

lemma shifted_smod:
  fixes col c a b :: int
  assumes "0 \<le> col" "0 < c" "a < c" "0 \<le> b"
  shows "(col + c + b - a) smod c = (col + b - a) mod c"
proof -
  have "0 \<le> col + c + b - a" using assms by simp
  then have "(col + c + b - a) smod c = (col + c + b - a) mod c"
    using assms(2) by (rule smod_nonneg_eq_mod)
  also have "\<dots> = ((col + b - a) + c) mod c" by (simp add: algebra_simps)
  also have "\<dots> = (col + b - a) mod c" by (rule mod_add_self2)
  finally show ?thesis .
qed

lemma aligned_target:
  "0 \<le> b \<Longrightarrow> b < c \<Longrightarrow> MR_STAR_target r c (aligned_MR_STAR r c b) b"
  by (simp add: MR_STAR_target_def aligned_MR_STAR_def empty_DistMatrix_def)

lemma resize_for_MR_STAR_aligned:
  assumes "colAlignment this = colAlignment A" and "grid this = grid A"
    and "0 \<le> height A" "0 \<le> width A"
    and "\<not> lockedView this"
    and "viewing this \<longrightarrow> height this = height A \<and> width this = width A"
    and "mviewing (localMatrix this) = viewing this"
  shows "\<exists>t. resize_for_MR_STAR b this A = Returned t
           \<and> colAlignment t = colAlignment A \<and> height t = height A \<and> width t = width A"
proof -
  have chk: "assign_checks b this A = None"
    using assms
    by (simp add: assign_checks_def debug_checks_def AssertNotLockedView_def AssertSameGrid_def
        AssertSameSize_def)
  show ?thesis
  proof (cases "viewing this")
    case True
    then show ?thesis unfolding resize_for_MR_STAR_def chk using assms by simp
  next
    case False
    let ?t = "if \<not> constrainedColAlignment this
              then this\<lparr>colAlignment := colAlignment A, colShift := colShift A\<rparr> else this"
    have nv: "\<not> viewing ?t" "\<not> mviewing (localMatrix ?t)" using False assms(7) by simp_all
    show ?thesis
      unfolding resize_for_MR_STAR_def chk
      using False assms(1) ResizeTo_owned [OF nv assms(3,4), of b] by simp
  qed
qed

subsection \<open>Facts about the gathering conversions\<close>

lemma mpi_AllGather_all:
  assumes "\<And>k. 0 \<le> k \<Longrightarrow> k < n \<Longrightarrow> \<exists>buf. members k = Some (count, buf)"
  shows "\<exists>G. mpi_AllGather n members count = Delivered G"
proof -
  have "list_all (\<lambda>k. case members k of Some (cnt, buf) \<Rightarrow> cnt = count | None \<Rightarrow> False) [0..n - 1]"
    unfolding list_all_iff
  proof
    fix k assume "k \<in> set [0..n - 1]"
    then have "0 \<le> k" "k < n" by simp_all
    from assms [OF this] obtain buf where "members k = Some (count, buf)" by blast
    then show "case members k of Some (cnt, buf) \<Rightarrow> cnt = count | None \<Rightarrow> False" by simp
  qed
  then show ?thesis by (simp add: mpi_AllGather_def)
qed

lemma mpi_SendRecv_matched:
  assumes "0 \<le> dest args" "dest args < n" "0 \<le> source args" "source args < n"
    and "members (dest args) = Some dargs" "members (source args) = Some sargs"
    and "source dargs = me" "dest sargs = me" "sendCount sargs \<le> recvCount args"
  shows "\<exists>buf. mpi_SendRecv n members me args = Delivered buf"
  using assms by (simp add: mpi_SendRecv_def)

lemma shift_rank_mod:
  fixes x n d :: int
  assumes "0 \<le> x" "x < n"
  shows "((x + d) mod n - d) mod n = x" and "((x - d) mod n + d) mod n = x"
proof -
  have "((x + d) mod n - d) mod n = ((x + d) - d) mod n" by (simp only: mod_diff_left_eq)
  then show "((x + d) mod n - d) mod n = x" using assms by simp
  have "((x - d) mod n + d) mod n = ((x - d) + d) mod n" by (simp only: mod_add_left_eq)
  then show "((x - d) mod n + d) mod n = x" using assms by simp
qed

lemma exchanged_MRComm:
  assumes reach: "\<And>row col. 0 \<le> row \<Longrightarrow> row < r \<Longrightarrow> 0 \<le> col \<Longrightarrow> col < c \<Longrightarrow>
             reached (row, col) = Some (t (row, col), pl (row, col))
           \<and> grid (t (row, col)) = \<lparr>Height = r, Width = c, MCRank = row, MRRank = col\<rparr>
           \<and> portionSize (pl (row, col)) = ps \<and> plan_aligned (pl (row, col)) = al
           \<and> sendRank (pl (row, col)) = (col + d) mod c
           \<and> recvRank (pl (row, col)) = (col - d) mod c"
    and q: "0 \<le> row" "row < r" "0 \<le> col" "col < c"
  shows "\<exists>buf. exchanged MRComm reached (row, col) = Delivered buf"
proof -
  have c: "0 < c" using q by simp
  note me = reach [OF q]
  show ?thesis
  proof (cases al)
    case True
    then show ?thesis using me by (simp add: exchanged_def)
  next
    case False
    let ?me = "plan_args (pl (row, col))"
    let ?d = "(col + d) mod c" and ?s = "(col - d) mod c"
    have dr: "0 \<le> ?d" "?d < c" and sr: "0 \<le> ?s" "?s < c" using c by simp_all
    note pd = reach [OF q(1,2) dr]
    note ps' = reach [OF q(1,2) sr]
    define members where "members = (\<lambda>k. case reached (if MRComm = VRComm
                                     then (k sdiv Width (grid (t (row, col))), k smod Width (grid (t (row, col))))
                                     else (fst (row, col), k)) of
                         Some (t', pl') \<Rightarrow> if plan_aligned pl' then None else Some (plan_args pl')
                       | None \<Rightarrow> None)"
    have md: "members ?d = Some (plan_args (pl (row, ?d)))"
      unfolding members_def using pd False by simp
    have ms: "members ?s = Some (plan_args (pl (row, ?s)))"
      unfolding members_def using ps' False by simp
    have "\<exists>buf. mpi_SendRecv c members col ?me = Delivered buf"
    proof (rule mpi_SendRecv_matched)
      show "0 \<le> dest ?me" "dest ?me < c" "0 \<le> source ?me" "source ?me < c"
        using me dr sr by (simp_all add: plan_args_def)
      show "members (dest ?me) = Some (plan_args (pl (row, ?d)))"
        using me md by (simp add: plan_args_def)
      show "members (source ?me) = Some (plan_args (pl (row, ?s)))"
        using me ms by (simp add: plan_args_def)
      show "source (plan_args (pl (row, ?d))) = col"
        using pd shift_rank_mod(1) [OF q(3,4), of d] by (simp add: plan_args_def)
      show "dest (plan_args (pl (row, ?s))) = col"
        using ps' shift_rank_mod(2) [OF q(3,4), of d] by (simp add: plan_args_def)
      show "sendCount (plan_args (pl (row, ?s))) \<le> recvCount ?me"
        using ps' me by (simp add: plan_args_def)
    qed
    then show ?thesis
      using me False unfolding exchanged_def members_def by (simp add: Let_def)
  qed
qed


lemma VR_rank_range:
  fixes row col r c :: int
  assumes "0 \<le> row" "row < r" "0 \<le> col" "col < c"
  shows "0 \<le> col + c * row" and "col + c * row < r * c"
proof -
  have c: "0 < c" using assms by simp
  show "0 \<le> col + c * row" using assms c by simp
  have "row + 1 \<le> r" using assms by simp
  then have "c * (row + 1) \<le> c * r" using c by (simp add: mult_left_mono)
  then show "col + c * row < r * c" using assms by (simp add: algebra_simps)
qed

lemma VR_rank_process:
  fixes x r c :: int
  assumes "0 \<le> x" "x < r * c" "0 < c"
  shows "x sdiv c = x div c" and "x smod c = x mod c"
    and "0 \<le> x div c" and "x div c < r" and "0 \<le> x mod c" and "x mod c < c"
    and "x mod c + c * (x div c) = x"
proof -
  show "x sdiv c = x div c" using assms by (simp add: sdiv_nonneg_eq_div)
  show "x smod c = x mod c" using assms by (simp add: smod_nonneg_eq_mod)
  show "0 \<le> x div c" using assms by (simp add: pos_imp_zdiv_nonneg_iff)
  have "x < c * r" using assms by (simp add: mult.commute)
  with assms(3) show "x div c < r" by (rule div_less_of_less_mult)
  show "0 \<le> x mod c" "x mod c < c" using assms by simp_all
  show "x mod c + c * (x div c) = x" by simp
qed

lemma exchanged_VRComm:
  assumes reach: "\<And>row col. 0 \<le> row \<Longrightarrow> row < r \<Longrightarrow> 0 \<le> col \<Longrightarrow> col < c \<Longrightarrow>
             reached (row, col) = Some (t (row, col), pl (row, col))
           \<and> grid (t (row, col)) = \<lparr>Height = r, Width = c, MCRank = row, MRRank = col\<rparr>
           \<and> portionSize (pl (row, col)) = ps \<and> plan_aligned (pl (row, col)) = al
           \<and> sendRank (pl (row, col)) = (col + c * row + d) mod (r * c)
           \<and> recvRank (pl (row, col)) = (col + c * row - d) mod (r * c)"
    and q: "0 \<le> row" "row < r" "0 \<le> col" "col < c"
  shows "\<exists>buf. exchanged VRComm reached (row, col) = Delivered buf"
proof -
  have c: "0 < c" using q by simp
  have p: "0 < r * c" using q by simp
  note me = reach [OF q]
  note rk = VR_rank_range [OF q]
  show ?thesis
  proof (cases al)
    case True
    then show ?thesis using me by (simp add: exchanged_def)
  next
    case False
    let ?me = "plan_args (pl (row, col))"
    let ?x = "col + c * row"
    let ?d = "(?x + d) mod (r * c)" and ?s = "(?x - d) mod (r * c)"
    have dr: "0 \<le> ?d" "?d < r * c" and sr: "0 \<le> ?s" "?s < r * c" using p by simp_all
    note vd = VR_rank_process [OF dr c]
    note vs = VR_rank_process [OF sr c]
    note pd = reach [OF vd(3,4,5,6)]
    note ps' = reach [OF vs(3,4,5,6)]
    define members where "members = (\<lambda>k. case reached (k sdiv c, k smod c) of
                         Some (t', pl') \<Rightarrow> if plan_aligned pl' then None else Some (plan_args pl')
                       | None \<Rightarrow> None)"
    have md: "members ?d = Some (plan_args (pl (?d div c, ?d mod c)))"
      unfolding members_def vd(1,2) using pd False by simp
    have ms: "members ?s = Some (plan_args (pl (?s div c, ?s mod c)))"
      unfolding members_def vs(1,2) using ps' False by simp
    have "\<exists>buf. mpi_SendRecv (r * c) members ?x ?me = Delivered buf"
    proof (rule mpi_SendRecv_matched)
      show "0 \<le> dest ?me" "dest ?me < r * c" "0 \<le> source ?me" "source ?me < r * c"
        using me dr sr by (simp_all add: plan_args_def)
      show "members (dest ?me) = Some (plan_args (pl (?d div c, ?d mod c)))"
        using me md by (simp add: plan_args_def)
      show "members (source ?me) = Some (plan_args (pl (?s div c, ?s mod c)))"
        using me ms by (simp add: plan_args_def)
      have "source (plan_args (pl (?d div c, ?d mod c))) = (?d mod c + c * (?d div c) - d) mod (r * c)"
        using pd by (simp add: plan_args_def)
      also have "\<dots> = (?d - d) mod (r * c)" by (simp only: vd(7))
      also have "\<dots> = ?x" by (rule shift_rank_mod(1) [OF rk])
      finally show "source (plan_args (pl (?d div c, ?d mod c))) = ?x" .
      have "dest (plan_args (pl (?s div c, ?s mod c))) = (?s mod c + c * (?s div c) + d) mod (r * c)"
        using ps' by (simp add: plan_args_def)
      also have "\<dots> = (?s + d) mod (r * c)" by (simp only: vs(7))
      also have "\<dots> = ?x" by (rule shift_rank_mod(2) [OF rk])
      finally show "dest (plan_args (pl (?s div c, ?s mod c))) = ?x" .
      show "sendCount (plan_args (pl (?s div c, ?s mod c))) \<le> recvCount ?me"
        using ps' me by (simp add: plan_args_def)
    qed
    then show ?thesis
      using me False unfolding exchanged_def members_def
      by (simp add: Let_def Size_def VRRank_def)
  qed
qed

lemma gather_protocol_returns:
  assumes reach: "\<And>row col. 0 \<le> row \<Longrightarrow> row < r \<Longrightarrow> 0 \<le> col \<Longrightarrow> col < c \<Longrightarrow>
             reached (row, col) = Some (t (row, col), pl (row, col))
           \<and> grid (t (row, col)) = \<lparr>Height = r, Width = c, MCRank = row, MRRank = col\<rparr>
           \<and> portionSize (pl (row, col)) = ps \<and> plan_aligned (pl (row, col)) = al"
    and ex: "\<And>row col. 0 \<le> row \<Longrightarrow> row < r \<Longrightarrow> 0 \<le> col \<Longrightarrow> col < c \<Longrightarrow>
             \<exists>buf. exchanged sc reached (row, col) = Delivered buf"
    and q: "0 \<le> row" "row < r" "0 \<le> col" "col < c"
  shows "\<exists>G. gather_protocol sc reached unpack (row, col) (t (row, col)) (pl (row, col))
           = Returned (unpack (t (row, col)) ps G,
               (if al then []
                else [SendRecv ps (sendRank (pl (row, col))) ps (recvRank (pl (row, col))) sc])
               @ [AllGather ps ps MCComm])"
proof -
  note me = reach [OF q]
  from ex [OF q] obtain first where f: "exchanged sc reached (row, col) = Delivered first" by blast
  define members where "members = (\<lambda>k. case reached (k, col) of
                   Some (t', pl') \<Rightarrow>
                     (case exchanged sc reached (k, col) of
                        Delivered buf \<Rightarrow> Some (portionSize pl', buf)
                      | _ \<Rightarrow> None)
                 | None \<Rightarrow> None)"
  have "\<exists>G. mpi_AllGather r members ps = Delivered G"
  proof (rule mpi_AllGather_all)
    fix k :: int assume k: "0 \<le> k" "k < r"
    from ex [OF k q(3,4)] obtain buf where "exchanged sc reached (k, col) = Delivered buf" by blast
    then show "\<exists>buf. members k = Some (ps, buf)"
      unfolding members_def using reach [OF k q(3,4)] by simp
  qed
  then obtain G where G: "mpi_AllGather r members ps = Delivered G" by blast
  have "gather_protocol sc reached unpack (row, col) (t (row, col)) (pl (row, col))
           = Returned (unpack (t (row, col)) ps G,
               (if al then []
                else [SendRecv ps (sendRank (pl (row, col))) ps (recvRank (pl (row, col))) sc])
               @ [AllGather ps ps MCComm])"
    unfolding gather_protocol_def Let_def snd_conv f members_def [symmetric]
    using me G by simp
  then show ?thesis by blast
qed

lemma source_at:
  assumes "source_family r c A H W ca ra" "0 \<le> row" "row < r" "0 \<le> col" "col < c"
  shows "grid (A (row, col)) = \<lparr>Height = r, Width = c, MCRank = row, MRRank = col\<rparr>"
    and "height (A (row, col)) = H" and "width (A (row, col)) = W"
    and "colAlignment (A (row, col)) = ca" and "rowAlignment (A (row, col)) = ra"
  using assms by (simp_all add: source_family_def)

lemma source_shape:
  assumes "source_family r c A H W ca ra"
  shows "0 \<le> H" "0 \<le> W"
  using assms by (simp_all add: source_family_def)

lemma resize_target_common:
  assumes T: "MR_STAR_target r c T b" and A: "source_family r c A H W ca ra"
    and q: "0 \<le> row" "row < r" "0 \<le> col" "col < c"
  shows "assign_checks bld (T (row, col)) (A (row, col)) = None"
    and "ResizeTo bld H W (T (row, col))
          = Returned ((T (row, col))\<lparr>height := H, width := W,
                localMatrix := \<lparr>mheight = LocalLength H (Shift col b c) c, mwidth = W,
                                mviewing = False, mentry = (\<lambda>i j. None)\<rparr>\<rparr>)"
proof -
  note t = target_at [OF T q]
  note d = source_at [OF A q]
  show "assign_checks bld (T (row, col)) (A (row, col)) = None"
    using t(1,2) d(1)
    by (simp add: assign_checks_def debug_checks_def AssertNotLockedView_def AssertSameGrid_def)
  show "ResizeTo bld H W (T (row, col))
          = Returned ((T (row, col))\<lparr>height := H, width := W,
                localMatrix := \<lparr>mheight = LocalLength H (Shift col b c) c, mwidth = W,
                                mviewing = False, mentry = (\<lambda>i j. None)\<rparr>\<rparr>)"
    using ResizeTo_owned [OF t(2,3) source_shape [OF A], of bld] t(1,6) by simp
qed

lemma resize_for_VR_STAR_target:
  assumes T: "MR_STAR_target r c T b" and A: "source_family r c A H W ca ra"
    and q: "0 \<le> row" "row < r" "0 \<le> col" "col < c"
  shows "resize_for_VR_STAR bld (T (row, col)) (A (row, col))
           = Returned ((T (row, col))\<lparr>height := H, width := W,
                localMatrix := \<lparr>mheight = LocalLength H (Shift col b c) c, mwidth = W,
                                mviewing = False, mentry = (\<lambda>i j. None)\<rparr>\<rparr>)"
  unfolding resize_for_VR_STAR_def resize_target_common(1) [OF T A q]
  using target_at(2,4) [OF T q] resize_target_common(2) [OF T A q, of bld] source_at(2,3) [OF A q]
  by (simp add: Let_def)

lemma resize_for_MR_MC_target:
  assumes T: "MR_STAR_target r c T b" and A: "source_family r c A H W ca ra"
    and q: "0 \<le> row" "row < r" "0 \<le> col" "col < c"
  shows "resize_for_MR_MC bld (T (row, col)) (A (row, col))
           = Returned ((T (row, col))\<lparr>height := H, width := W,
                localMatrix := \<lparr>mheight = LocalLength H (Shift col b c) c, mwidth = W,
                                mviewing = False, mentry = (\<lambda>i j. None)\<rparr>\<rparr>)"
  unfolding resize_for_MR_MC_def resize_target_common(1) [OF T A q]
  using target_at(2,4) [OF T q] resize_target_common(2) [OF T A q, of bld] source_at(2,3) [OF A q]
  by (simp add: Let_def)

lemma shifted_smod_general:
  fixes x n a b :: int
  assumes "0 \<le> x" "0 < n" "a < n" "0 \<le> b"
  shows "(x + n + b - a) smod n = (x + (b - a)) mod n"
  using shifted_smod [OF assms] by (simp add: algebra_simps)

lemma shifted_smod_general':
  fixes x n a b :: int
  assumes "0 \<le> x" "0 < n" "b < n" "0 \<le> a"
  shows "(x + n + a - b) smod n = (x - (b - a)) mod n"
  using shifted_smod [OF assms] by (simp add: algebra_simps)

lemma for_loop_preserves:
  assumes "P s" and "\<And>k x. P x \<Longrightarrow> P (body k x)"
  shows "P (for_loop n body s)"
proof (cases "0 \<le> n")
  case True
  show ?thesis
    by (rule for_loop_induct [where P = "\<lambda>k. P", OF assms(1) _ True]) (rule assms(2))
next
  case False
  then show ?thesis using assms(1) by (simp add: for_loop_0)
qed

lemma set_loop_shape:
  assumes "same_shape m0 x"
  shows "same_shape m0 (for_loop w (\<lambda>j. for_loop h (\<lambda>i m. set_entry m (f i) j (g i j))) x)"
proof (rule for_loop_preserves [where P = "same_shape m0"])
  show "same_shape m0 x" by fact
next
  fix k y assume y: "same_shape m0 y"
  show "same_shape m0 (for_loop h (\<lambda>i m. set_entry m (f i) k (g i k)) y)"
  proof (rule for_loop_preserves [where P = "same_shape m0"])
    show "same_shape m0 y" by fact
  next
    fix i z assume "same_shape m0 z"
    then show "same_shape m0 (set_entry z (f i) k (g i k))"
      by (simp add: same_shape_def set_entry_def)
  qed
qed

lemma memcpy_loop_shape:
  assumes "same_shape m0 x"
  shows "same_shape m0 (for_loop w (\<lambda>j m. memcpy_to_col m (f j) G (g j) h) x)"
proof (rule for_loop_preserves [where P = "same_shape m0"])
  show "same_shape m0 x" by fact
next
  fix k y assume "same_shape m0 y"
  then show "same_shape m0 (memcpy_to_col y (f k) G (g k) h)"
    by (simp add: same_shape_def memcpy_to_col_def)
qed

lemma unpack_VR_STAR_shape:
  "same_shape (localMatrix t) (localMatrix (unpack_VR_STAR t A n G))
   \<and> height (unpack_VR_STAR t A n G) = height t \<and> width (unpack_VR_STAR t A n G) = width t
   \<and> colAlignment (unpack_VR_STAR t A n G) = colAlignment t
   \<and> colShift (unpack_VR_STAR t A n G) = colShift t \<and> grid (unpack_VR_STAR t A n G) = grid t"
proof -
  have "same_shape (localMatrix t) (for_loop r
             (\<lambda>k m. for_loop w
                     (\<lambda>j. for_loop (lh k)
                            (\<lambda>iLocal m'. set_entry m' (off k + iLocal * r') j (g k iLocal j)))
                     m)
             (localMatrix t))" for r w lh off r' g
  proof (rule for_loop_preserves [where P = "same_shape (localMatrix t)"])
    show "same_shape (localMatrix t) (localMatrix t)" by (simp add: same_shape_def)
  next
    fix k x assume x: "same_shape (localMatrix t) x"
    show "same_shape (localMatrix t)
        (for_loop w (\<lambda>j. for_loop (lh k)
                            (\<lambda>iLocal m'. set_entry m' (off k + iLocal * r') j (g k iLocal j))) x)"
      by (rule set_loop_shape [OF x, where f = "\<lambda>i. off k + i * r'" and g = "g k"])
  qed
  then show ?thesis by (simp add: unpack_VR_STAR_def Let_def)
qed

lemma unpack_MR_MC_shape:
  "same_shape (localMatrix t) (localMatrix (unpack_MR_MC t A n G))
   \<and> height (unpack_MR_MC t A n G) = height t \<and> width (unpack_MR_MC t A n G) = width t
   \<and> colAlignment (unpack_MR_MC t A n G) = colAlignment t
   \<and> colShift (unpack_MR_MC t A n G) = colShift t \<and> grid (unpack_MR_MC t A n G) = grid t"
proof -
  have "same_shape (localMatrix t) (for_loop r
             (\<lambda>k m. for_loop (lw k)
                     (\<lambda>jLocal m'. memcpy_to_col m' (cl k jLocal) G (off k jLocal) lh)
                     m)
             (localMatrix t))" for r lw cl off lh
  proof (rule for_loop_preserves [where P = "same_shape (localMatrix t)"])
    show "same_shape (localMatrix t) (localMatrix t)" by (simp add: same_shape_def)
  next
    fix k x assume x: "same_shape (localMatrix t) x"
    show "same_shape (localMatrix t)
        (for_loop (lw k) (\<lambda>jLocal m'. memcpy_to_col m' (cl k jLocal) G (off k jLocal) lh) x)"
      by (rule memcpy_loop_shape [OF x, where f = "cl k" and g = "off k"])
  qed
  then show ?thesis by (simp add: unpack_MR_MC_def Let_def)
qed


lemma zero_extent_sizes:
  fixes H W n :: int
  assumes "H = 0 \<or> W = 0" "0 \<le> H" "0 \<le> W" "0 < n" "0 < k" "0 \<le> s" "s < n"
  shows "MaxLocalLength H n * W = 0"
    and "MaxLocalLength H n * MaxLocalLength W k = 0"
    and "LocalLength H s n * MaxLocalLength W k = 0"
    and "LocalLength H s n * W = 0"
proof -
  have z: "MaxLocalLength 0 n = 0" "MaxLocalLength 0 k = 0" "LocalLength 0 s n = 0"
    using assms by (simp_all add: MaxLocalLength_def LocalLength_zero)
  show "MaxLocalLength H n * W = 0" using assms(1) z by auto
  show "MaxLocalLength H n * MaxLocalLength W k = 0" using assms(1) z by auto
  show "LocalLength H s n * MaxLocalLength W k = 0" using assms(1) z by auto
  show "LocalLength H s n * W = 0" using assms(1) z by auto
qed

lemma assign_from_VR_STAR_zero:
  assumes T: "MR_STAR_target r c T b" and A: "source_family r c A H W ca ra"
    and z: "H = 0 \<or> W = 0" and ca: "0 \<le> ca" "ca < r * c"
    and q: "0 \<le> row" "row < r" "0 \<le> col" "col < c"
  shows "\<exists>t. assign_from_VR_STAR bld T A (row, col)
           = Returned (t,
               (if b = ca mod c then []
                else [SendRecv (max 0 (MIN_COLL_MSG bld)) ((col + c * row + (b - ca)) mod (r * c))
                               (max 0 (MIN_COLL_MSG bld)) ((col + c * row - (b - ca)) mod (r * c))
                               VRComm])
               @ [AllGather (max 0 (MIN_COLL_MSG bld)) (max 0 (MIN_COLL_MSG bld)) MCComm])
         \<and> height t = H \<and> width t = W
         \<and> mheight (localMatrix t) * mwidth (localMatrix t) = 0"
proof -
  let ?t0 = "\<lambda>(row, col). (T (row, col))\<lparr>height := H, width := W,
                localMatrix := \<lparr>mheight = LocalLength H (Shift col b c) c, mwidth = W,
                                mviewing = False, mentry = (\<lambda>i j. None)\<rparr>\<rparr>"
  let ?pl = "\<lambda>q'. plan_VR_STAR bld (?t0 q') (A q')"
  let ?reached = "\<lambda>q'. case resize_for_VR_STAR bld (T q') (A q') of
                    Returned t' \<Rightarrow> Some (t', plan_VR_STAR bld t' (A q'))
                  | _ \<Rightarrow> None"
  let ?ps = "max 0 (MIN_COLL_MSG bld)"
  let ?al = "b = ca mod c"
  have c: "0 < c" and r: "0 < r" using q by simp_all
  have p: "0 < r * c" using c r by simp
  note tb = target_alignment [OF T]
  note sh = source_shape [OF A]
  have bp: "b < r * c"
  proof -
    have "1 \<le> r" "0 \<le> c" using c r by simp_all
    then have "c * 1 \<le> c * r" by (rule mult_left_mono)
    then have "c \<le> r * c" by (simp add: mult.commute)
    then show ?thesis using tb(2) by linarith
  qed
  have reach: "?reached (row, col) = Some (?t0 (row, col), ?pl (row, col))
           \<and> grid (?t0 (row, col)) = \<lparr>Height = r, Width = c, MCRank = row, MRRank = col\<rparr>
           \<and> portionSize (?pl (row, col)) = ?ps \<and> plan_aligned (?pl (row, col)) = ?al
           \<and> sendRank (?pl (row, col)) = (col + c * row + (b - ca)) mod (r * c)
           \<and> recvRank (?pl (row, col)) = (col + c * row - (b - ca)) mod (r * c)"
    if q': "0 \<le> row" "row < r" "0 \<le> col" "col < c" for row col
  proof -
    note t = target_at [OF T q']
    note s = source_at [OF A q']
    note rk = VR_rank_range [OF q']
    have s1: "(col + c * row + r * c + b - ca) smod (r * c) = (col + c * row + (b - ca)) mod (r * c)"
      by (rule shifted_smod_general [OF rk(1) p ca(2) tb(1)])
    have s2: "(col + c * row + r * c + ca - b) smod (r * c) = (col + c * row - (b - ca)) mod (r * c)"
      by (rule shifted_smod_general' [OF rk(1) p bp ca(1)])
    have sm: "ca smod c = ca mod c" using ca c by (simp add: smod_nonneg_eq_mod)
    have ms: "MaxLocalLength H (r * c) * W = 0"
      by (rule zero_extent_sizes(1) [OF z sh p p]) (use p in simp_all)
    show ?thesis
      using t(1,5) s(4) s1 s2 sm
      by (simp add: resize_for_VR_STAR_target [OF T A q'] plan_VR_STAR_def Let_def Size_def
          VRRank_def ms)
  qed
  have ex: "\<exists>buf. exchanged VRComm ?reached (row, col) = Delivered buf"
    if q': "0 \<le> row" "row < r" "0 \<le> col" "col < c" for row col
    by (rule exchanged_VRComm [where t = ?t0 and pl = ?pl and ps = ?ps and al = ?al
          and d = "b - ca", OF _ q']) (use reach in blast)
  have "\<exists>G. gather_protocol VRComm ?reached (\<lambda>t'. unpack_VR_STAR t' (A (row, col))) (row, col)
               (?t0 (row, col)) (?pl (row, col))
           = Returned (unpack_VR_STAR (?t0 (row, col)) (A (row, col)) ?ps G,
               (if ?al then []
                else [SendRecv ?ps (sendRank (?pl (row, col))) ?ps (recvRank (?pl (row, col))) VRComm])
               @ [AllGather ?ps ?ps MCComm])"
    by (rule gather_protocol_returns [where t = ?t0 and pl = ?pl and ps = ?ps and al = ?al,
          OF _ ex q]) (use reach in blast)
  then obtain G where G: "gather_protocol VRComm ?reached (\<lambda>t'. unpack_VR_STAR t' (A (row, col)))
               (row, col) (?t0 (row, col)) (?pl (row, col))
           = Returned (unpack_VR_STAR (?t0 (row, col)) (A (row, col)) ?ps G,
               (if ?al then []
                else [SendRecv ?ps (sendRank (?pl (row, col))) ?ps (recvRank (?pl (row, col))) VRComm])
               @ [AllGather ?ps ?ps MCComm])"
    by blast
  note me = reach [OF q]
  have res: "assign_from_VR_STAR bld T A (row, col)
      = Returned (unpack_VR_STAR (?t0 (row, col)) (A (row, col)) ?ps G,
               (if ?al then []
                else [SendRecv ?ps ((col + c * row + (b - ca)) mod (r * c)) ?ps
                        ((col + c * row - (b - ca)) mod (r * c)) VRComm])
               @ [AllGather ?ps ?ps MCComm])"
    unfolding assign_from_VR_STAR_def resize_for_VR_STAR_target [OF T A q]
    using G me by simp
  have srange: "0 \<le> Shift col b c" "Shift col b c < c"
    using Shift_range [OF q(3) tb(2) c] by simp_all
  have empty: "LocalLength H (Shift col b c) c * W = 0"
    by (rule zero_extent_sizes(4) [OF z sh c c srange])
  show ?thesis
    unfolding res using unpack_VR_STAR_shape [of "?t0 (row, col)" "A (row, col)" ?ps G] empty
    by (simp add: same_shape_def)
qed


lemma assign_from_MR_MC_zero:
  assumes T: "MR_STAR_target r c T b" and A: "source_family r c A H W ca ra"
    and z: "H = 0 \<or> W = 0" and ca: "0 \<le> ca" "ca < c"
    and q: "0 \<le> row" "row < r" "0 \<le> col" "col < c"
  shows "\<exists>t. assign_from_MR_MC bld T A (row, col)
           = Returned (t,
               (if b = ca then []
                else [SendRecv (max 0 (MIN_COLL_MSG bld)) ((col + (b - ca)) mod c)
                               (max 0 (MIN_COLL_MSG bld)) ((col - (b - ca)) mod c)
                               MRComm])
               @ [AllGather (max 0 (MIN_COLL_MSG bld)) (max 0 (MIN_COLL_MSG bld)) MCComm])
         \<and> height t = H \<and> width t = W
         \<and> mheight (localMatrix t) * mwidth (localMatrix t) = 0"
proof -
  let ?t0 = "\<lambda>(row, col). (T (row, col))\<lparr>height := H, width := W,
                localMatrix := \<lparr>mheight = LocalLength H (Shift col b c) c, mwidth = W,
                                mviewing = False, mentry = (\<lambda>i j. None)\<rparr>\<rparr>"
  let ?pl = "\<lambda>q'. plan_MR_MC bld (?t0 q') (A q')"
  let ?reached = "\<lambda>q'. case resize_for_MR_MC bld (T q') (A q') of
                    Returned t' \<Rightarrow> Some (t', plan_MR_MC bld t' (A q'))
                  | _ \<Rightarrow> None"
  let ?ps = "max 0 (MIN_COLL_MSG bld)"
  let ?al = "b = ca"
  have c: "0 < c" and r: "0 < r" using q by simp_all
  note tb = target_alignment [OF T]
  note sh = source_shape [OF A]
  have reach: "?reached (row, col) = Some (?t0 (row, col), ?pl (row, col))
           \<and> grid (?t0 (row, col)) = \<lparr>Height = r, Width = c, MCRank = row, MRRank = col\<rparr>
           \<and> portionSize (?pl (row, col)) = ?ps \<and> plan_aligned (?pl (row, col)) = ?al
           \<and> sendRank (?pl (row, col)) = (col + (b - ca)) mod c
           \<and> recvRank (?pl (row, col)) = (col - (b - ca)) mod c"
    if q': "0 \<le> row" "row < r" "0 \<le> col" "col < c" for row col
  proof -
    note t = target_at [OF T q']
    note s = source_at [OF A q']
    have s1: "(col + c + b - ca) smod c = (col + (b - ca)) mod c"
      by (rule shifted_smod_general [OF q'(3) c ca(2) tb(1)])
    have s2: "(col + c + ca - b) smod c = (col - (b - ca)) mod c"
      by (rule shifted_smod_general' [OF q'(3) c tb(2) ca(1)])
    have srange: "0 \<le> Shift col b c" "Shift col b c < c"
      using Shift_range [OF q'(3) tb(2) c] by simp_all
    have ms: "MaxLocalLength H c * MaxLocalLength W r = 0"
      "LocalLength H (Shift col b c) c * MaxLocalLength W r = 0"
      using zero_extent_sizes(2,3) [OF z sh c r srange] by simp_all
    have srange': "0 \<le> Shift col ca c" "Shift col ca c < c"
      using Shift_range [OF q'(3) ca(2) c] by simp_all
    have ms': "LocalLength H (Shift col ca c) c * MaxLocalLength W r = 0"
      using zero_extent_sizes(3) [OF z sh c r srange'] by simp
    show ?thesis
      using t(1,5) s(4) s1 s2
      by (simp add: resize_for_MR_MC_target [OF T A q'] plan_MR_MC_def Let_def LocalHeight_def
            ms ms')
  qed
  have ex: "\<exists>buf. exchanged MRComm ?reached (row, col) = Delivered buf"
    if q': "0 \<le> row" "row < r" "0 \<le> col" "col < c" for row col
    by (rule exchanged_MRComm [where t = ?t0 and pl = ?pl and ps = ?ps and al = ?al
          and d = "b - ca", OF _ q']) (use reach in blast)
  have "\<exists>G. gather_protocol MRComm ?reached (\<lambda>t'. unpack_MR_MC t' (A (row, col))) (row, col)
               (?t0 (row, col)) (?pl (row, col))
           = Returned (unpack_MR_MC (?t0 (row, col)) (A (row, col)) ?ps G,
               (if ?al then []
                else [SendRecv ?ps (sendRank (?pl (row, col))) ?ps (recvRank (?pl (row, col))) MRComm])
               @ [AllGather ?ps ?ps MCComm])"
    by (rule gather_protocol_returns [where t = ?t0 and pl = ?pl and ps = ?ps and al = ?al,
          OF _ ex q]) (use reach in blast)
  then obtain G where G: "gather_protocol MRComm ?reached (\<lambda>t'. unpack_MR_MC t' (A (row, col)))
               (row, col) (?t0 (row, col)) (?pl (row, col))
           = Returned (unpack_MR_MC (?t0 (row, col)) (A (row, col)) ?ps G,
               (if ?al then []
                else [SendRecv ?ps (sendRank (?pl (row, col))) ?ps (recvRank (?pl (row, col))) MRComm])
               @ [AllGather ?ps ?ps MCComm])"
    by blast
  note me = reach [OF q]
  have res: "assign_from_MR_MC bld T A (row, col)
      = Returned (unpack_MR_MC (?t0 (row, col)) (A (row, col)) ?ps G,
               (if ?al then []
                else [SendRecv ?ps ((col + (b - ca)) mod c) ?ps ((col - (b - ca)) mod c) MRComm])
               @ [AllGather ?ps ?ps MCComm])"
    unfolding assign_from_MR_MC_def resize_for_MR_MC_target [OF T A q]
    using G me by simp
  have srange: "0 \<le> Shift col b c" "Shift col b c < c"
    using Shift_range [OF q(3) tb(2) c] by simp_all
  have empty: "LocalLength H (Shift col b c) c * W = 0"
    by (rule zero_extent_sizes(4) [OF z sh c c srange])
  show ?thesis
    unfolding res using unpack_MR_MC_shape [of "?t0 (row, col)" "A (row, col)" ?ps G] empty
    by (simp add: same_shape_def)
qed

lemma source_family_VR:
  assumes "0 \<le> H" "0 \<le> W"
  shows "source_family r c (cyclic_VR_STAR r c H W a M) H W a 0"
  using assms by (simp add: source_family_def cyclic_VR_STAR_def Let_def)

lemma example_empty_source: "source_family 2 1 example_empty_VR_STAR 0 3 0 0"
  unfolding example_empty_VR_STAR_def by (rule source_family_VR) simp_all

lemma example_aligned_target:
  "MR_STAR_target 2 1 (aligned_MR_STAR 2 1 0 :: int \<times> int \<Rightarrow> int DistMatrix) 0"
  by (rule aligned_target) simp_all

section \<open>Claims\<close>

text \<open>
  C5. For every \<open>n \<ge> 0\<close> and every \<open>stride \<ge> 1\<close>, the local lengths of the
  \<open>stride\<close> distinct shifts \<open>0, ..., stride - 1\<close> add up to \<open>n\<close>; the local length
  of a shift is the number of indices \<open>i\<close> in \<open>[0, n)\<close> with \<open>i mod stride = shift\<close>,
  which is the ceiling of \<open>(n - shift)/stride\<close> clamped at 0.
\<close>

theorem LocalLength_partition:
  assumes "0 \<le> n" and "1 \<le> stride"
  shows "(\<Sum>shift\<in>{0..<stride}. LocalLength n shift stride) = n
       \<and> (\<forall>shift\<in>{0..<stride}.
            LocalLength n shift stride = int (card {i. 0 \<le> i \<and> i < n \<and> i mod stride = shift})
          \<and> LocalLength n shift stride
              = max 0 \<lceil>real_of_int (n - shift) / real_of_int stride\<rceil>)"
  using assms LocalLength_sum [of n stride] LocalLength_card [of n _ stride]
    LocalLength_ceiling [of stride n]
  by simp

theorem LocalLength_partition_witness:
  "(0::int) \<le> 7 \<and> (1::int) \<le> 3 \<and> (\<Sum>shift\<in>{0..<3}. LocalLength 7 shift 3) = 7"
proof -
  have h1: "(0::int) \<le> 7" by simp
  have h2: "(1::int) \<le> 3" by simp
  have "(\<Sum>shift\<in>{0..<3}. LocalLength 7 shift 3) = 7"
    using LocalLength_partition [OF h1 h2] by (rule conjunct1)
  with h1 h2 show ?thesis by blast
qed







text \<open>
  C6. For every target and every source, assigning an [MD,*]-distributed or a
  [*,MD]-distributed source to an [MR,*] target throws: the call never returns normally,
  the object at the time of the throw is the target as it was, and no communication call
  has been issued. When the assertions of the debug build hold (or are compiled out), the
  error is the \<open>logic_error\<close> that reports the conversion as not implemented.
\<close>

theorem assign_from_MD_fails:
  "is_Thrown (assign_from_MD_STAR b this A)
   \<and> thrown_state (assign_from_MD_STAR b this A) = (this, [])
   \<and> is_Thrown (assign_from_STAR_MD b this A)
   \<and> thrown_state (assign_from_STAR_MD b this A) = (this, [])
   \<and> (assign_checks b this A = None \<longrightarrow>
        assign_from_MD_STAR b this A
          = Thrown (logic_error ''[MR,* ] = [MD,* ] not yet implemented.'') (this, [])
      \<and> assign_from_STAR_MD b this A
          = Thrown (logic_error ''[MR,* ] = [* ,MD] not yet implemented.'') (this, []))"
  by (simp add: assign_from_MD_STAR_def assign_from_STAR_MD_def split: option.split)

theorem assign_from_MD_fails_witness:
  "assign_checks debug_build (example_MR_STAR (0, 0)) (example_MR_STAR (0, 0)) = None
   \<and> assign_from_MD_STAR debug_build (example_MR_STAR (0, 0)) (example_MR_STAR (0, 0))
       = Thrown (logic_error ''[MR,* ] = [MD,* ] not yet implemented.'')
           (example_MR_STAR (0, 0), [])
   \<and> assign_from_STAR_MD debug_build (example_MR_STAR (0, 0)) (example_MR_STAR (0, 0))
       = Thrown (logic_error ''[MR,* ] = [* ,MD] not yet implemented.'')
           (example_MR_STAR (0, 0), [])"
proof -
  have h: "assign_checks debug_build (example_MR_STAR (0, 0)) (example_MR_STAR (0, 0)) = None"
    by (simp add: assign_checks_def debug_checks_def debug_build_def AssertNotLockedView_def
        AssertSameGrid_def example_MR_STAR_def cyclic_MR_STAR_def Let_def)
  show ?thesis
    using h assign_from_MD_fails [of debug_build "example_MR_STAR (0, 0)" "example_MR_STAR (0, 0)"]
    by blast
qed




text \<open>
  C8, as stated, fails when \<open>RELEASE\<close> is defined: \<open>AssertFreeColAlignment\<close> stands in an
  \<open>#ifndef RELEASE\<close> block, so \<open>AlignCols\<close> on a matrix whose column alignment is
  constrained returns, and with a new alignment.
\<close>

theorem AlignCols_release_counterexample:
  "constrainedColAlignment (example_MR_STAR (0, 0))
   \<and> colAlignment (example_MR_STAR (0, 0)) = 0
   \<and> is_Returned (AlignCols release_build 1 (example_MR_STAR (0, 0)))
   \<and> colAlignment (result (AlignCols release_build 1 (example_MR_STAR (0, 0)))) = 1"
  by (simp add: AlignCols_def debug_checks_def release_build_def set_col_alignment_def
      local_ResizeTo_def Matrix_ResizeTo_def example_MR_STAR_def cyclic_MR_STAR_def Let_def)

text \<open>
  C8, amended. In a build without \<open>RELEASE\<close>, \<open>AlignCols\<close> and every \<open>AlignWith\<close> throw on
  a matrix whose column alignment is constrained, and leave it as it was. When the call is
  permitted (the alignment is free, or \<open>RELEASE\<close> is defined) and the object owns its
  storage, then \<open>AlignCols\<close> with an alignment in \<open>[0, gridWidth)\<close>, and \<open>AlignWith\<close> with an
  [MR,MC], [MR,*], [MC,MR] or [*,MR] reference of the same grid, reset the global height and
  width to 0, make the local matrix \<open>0 \<times> 0\<close>, set the column alignment to the requested
  or the reference's alignment, which lies in \<open>[0, gridWidth)\<close>, set the shift to
  \<open>Shift(MRRank, alignment, gridWidth)\<close> and mark the alignment as constrained.
\<close>

theorem Align_contract:
  assumes "\<not> mviewing (localMatrix this)"
  shows "let realigned = (\<lambda>x. this\<lparr>colAlignment := x,
                             colShift := Shift (MRRank (grid this)) x (Width (grid this)),
                             constrainedColAlignment := True, height := 0, width := 0,
                             localMatrix := \<lparr>mheight = 0, mwidth = 0, mviewing = False,
                                             mentry = (\<lambda>i j. None)\<rparr>\<rparr>);
             free_failed = assertion ''Assertion that column alignment be free failed.''
         in (\<not> RELEASE b \<and> constrainedColAlignment this \<longrightarrow>
               AlignCols b a this = Thrown free_failed this
             \<and> AlignWith_MR_MC b this A = Thrown free_failed this
             \<and> AlignWith_MR_STAR b this A = Thrown free_failed this
             \<and> AlignWith_MC_MR b this A = Thrown free_failed this
             \<and> AlignWith_STAR_MR b this A = Thrown free_failed this
             \<and> AlignWith_VR_STAR b this A = Thrown free_failed this
             \<and> AlignWith_STAR_VR b this A = Thrown free_failed this)
          \<and> ((RELEASE b \<or> \<not> constrainedColAlignment this) \<longrightarrow>
               (0 \<le> a \<and> a < Width (grid this) \<longrightarrow> AlignCols b a this = Returned (realigned a))
             \<and> (grid A = grid this \<and> MR_aligned_cols A \<longrightarrow>
                   AlignWith_MR_MC b this A = Returned (realigned (colAlignment A))
                 \<and> AlignWith_MR_STAR b this A = Returned (realigned (colAlignment A))
                 \<and> 0 \<le> colAlignment A \<and> colAlignment A < Width (grid this))
             \<and> (grid A = grid this \<and> MR_aligned_rows A \<longrightarrow>
                   AlignWith_MC_MR b this A = Returned (realigned (rowAlignment A))
                 \<and> AlignWith_STAR_MR b this A = Returned (realigned (rowAlignment A))
                 \<and> 0 \<le> rowAlignment A \<and> rowAlignment A < Width (grid this)))"
proof -
  have thrown: "\<not> RELEASE b \<and> constrainedColAlignment this \<Longrightarrow>
      AlignCols b a this = Thrown (assertion ''Assertion that column alignment be free failed.'') this
    \<and> AlignWith_MR_MC b this A = Thrown (assertion ''Assertion that column alignment be free failed.'') this
    \<and> AlignWith_MR_STAR b this A = Thrown (assertion ''Assertion that column alignment be free failed.'') this
    \<and> AlignWith_MC_MR b this A = Thrown (assertion ''Assertion that column alignment be free failed.'') this
    \<and> AlignWith_STAR_MR b this A = Thrown (assertion ''Assertion that column alignment be free failed.'') this
    \<and> AlignWith_VR_STAR b this A = Thrown (assertion ''Assertion that column alignment be free failed.'') this
    \<and> AlignWith_STAR_VR b this A = Thrown (assertion ''Assertion that column alignment be free failed.'') this"
    by (simp add: AlignCols_def AlignWith_MR_MC_def AlignWith_MR_STAR_def AlignWith_MC_MR_def
        AlignWith_STAR_MR_def AlignWith_VR_STAR_def AlignWith_STAR_VR_def constrained_checks)
  have cols: "RELEASE b \<or> \<not> constrainedColAlignment this \<Longrightarrow> 0 \<le> a \<and> a < Width (grid this) \<Longrightarrow>
      AlignCols b a this = Returned (this\<lparr>colAlignment := a,
                             colShift := Shift (MRRank (grid this)) a (Width (grid this)),
                             constrainedColAlignment := True, height := 0, width := 0,
                             localMatrix := \<lparr>mheight = 0, mwidth = 0, mviewing = False,
                                             mentry = (\<lambda>i j. None)\<rparr>\<rparr>)"
    using permitted_checks [of b this this] assms
    by (simp add: AlignCols_def Let_def set_col_alignment_owned)
  have withc: "RELEASE b \<or> \<not> constrainedColAlignment this \<Longrightarrow> grid A = grid this \<and> MR_aligned_cols A \<Longrightarrow>
      AlignWith_MR_MC b this A = Returned (this\<lparr>colAlignment := colAlignment A,
                             colShift := Shift (MRRank (grid this)) (colAlignment A) (Width (grid this)),
                             constrainedColAlignment := True, height := 0, width := 0,
                             localMatrix := \<lparr>mheight = 0, mwidth = 0, mviewing = False,
                                             mentry = (\<lambda>i j. None)\<rparr>\<rparr>)
    \<and> AlignWith_MR_STAR b this A = Returned (this\<lparr>colAlignment := colAlignment A,
                             colShift := Shift (MRRank (grid this)) (colAlignment A) (Width (grid this)),
                             constrainedColAlignment := True, height := 0, width := 0,
                             localMatrix := \<lparr>mheight = 0, mwidth = 0, mviewing = False,
                                             mentry = (\<lambda>i j. None)\<rparr>\<rparr>)
    \<and> 0 \<le> colAlignment A \<and> colAlignment A < Width (grid this)"
    using permitted_checks [of b this A] assms
    by (auto simp add: AlignWith_MR_MC_def AlignWith_MR_STAR_def MR_aligned_cols_def
        set_col_alignment_owned)
  have withr: "RELEASE b \<or> \<not> constrainedColAlignment this \<Longrightarrow> grid A = grid this \<and> MR_aligned_rows A \<Longrightarrow>
      AlignWith_MC_MR b this A = Returned (this\<lparr>colAlignment := rowAlignment A,
                             colShift := Shift (MRRank (grid this)) (rowAlignment A) (Width (grid this)),
                             constrainedColAlignment := True, height := 0, width := 0,
                             localMatrix := \<lparr>mheight = 0, mwidth = 0, mviewing = False,
                                             mentry = (\<lambda>i j. None)\<rparr>\<rparr>)
    \<and> AlignWith_STAR_MR b this A = Returned (this\<lparr>colAlignment := rowAlignment A,
                             colShift := Shift (MRRank (grid this)) (rowAlignment A) (Width (grid this)),
                             constrainedColAlignment := True, height := 0, width := 0,
                             localMatrix := \<lparr>mheight = 0, mwidth = 0, mviewing = False,
                                             mentry = (\<lambda>i j. None)\<rparr>\<rparr>)
    \<and> 0 \<le> rowAlignment A \<and> rowAlignment A < Width (grid this)"
    using permitted_checks [of b this A] assms
    by (auto simp add: AlignWith_MC_MR_def AlignWith_STAR_MR_def MR_aligned_rows_def
        set_col_alignment_owned)
  show ?thesis
    unfolding Let_def using thrown cols withc withr by blast
qed

theorem Align_contract_witness:
  "\<not> mviewing (localMatrix (example_MR_STAR (0, 1)))
   \<and> AlignCols debug_build 1 (example_MR_STAR (0, 1))
       = Thrown (assertion ''Assertion that column alignment be free failed.'')
           (example_MR_STAR (0, 1))
   \<and> is_Returned (AlignCols debug_build 1
         (empty_DistMatrix \<lparr>Height = 2, Width = 2, MCRank = 0, MRRank = 1\<rparr> :: int DistMatrix))
   \<and> colAlignment (result (AlignCols debug_build 1
         (empty_DistMatrix \<lparr>Height = 2, Width = 2, MCRank = 0, MRRank = 1\<rparr> :: int DistMatrix))) = 1
   \<and> colShift (result (AlignCols debug_build 1
         (empty_DistMatrix \<lparr>Height = 2, Width = 2, MCRank = 0, MRRank = 1\<rparr> :: int DistMatrix))) = 0
   \<and> is_Returned (AlignWith_MR_STAR debug_build
         (empty_DistMatrix \<lparr>Height = 2, Width = 2, MCRank = 0, MRRank = 1\<rparr> :: int DistMatrix)
         (example_MR_STAR (0, 1)))
   \<and> colShift (result (AlignWith_MR_STAR debug_build
         (empty_DistMatrix \<lparr>Height = 2, Width = 2, MCRank = 0, MRRank = 1\<rparr> :: int DistMatrix)
         (example_MR_STAR (0, 1)))) = 1"
proof -
  let ?e = "empty_DistMatrix \<lparr>Height = 2, Width = 2, MCRank = 0, MRRank = 1\<rparr> :: int DistMatrix"
  have h1: "\<not> mviewing (localMatrix (example_MR_STAR (0, 1)))"
    by (simp add: example_MR_STAR_def cyclic_MR_STAR_def Let_def)
  have h2: "\<not> mviewing (localMatrix ?e)"
    by (simp add: empty_DistMatrix_def)
  have a: "MR_aligned_cols (example_MR_STAR (0, 1))"
    by (simp add: MR_aligned_cols_def example_MR_STAR_def cyclic_MR_STAR_def Let_def)
  show ?thesis
    using h1 a Align_contract [OF h1, of debug_build 1 "example_MR_STAR (0, 1)"]
      Align_contract [OF h2, of debug_build 1 "example_MR_STAR (0, 1)"]
    by (simp add: Let_def debug_build_def example_MR_STAR_def cyclic_MR_STAR_def
        empty_DistMatrix_def Shift_def)
qed

text \<open>
  C10. The invariant \<open>0 \<le> colAlignment < gridWidth\<close> is broken by \<open>AlignWith\<close> with a
  [VR,*] reference: the method stores \<open>A.ColAlignment()\<close>, an alignment over all
  \<open>r * c\<close> processes, without reducing it modulo the grid width, which the assignment from
  a [VR,*] matrix does. On the 2 x 2 grid a reference with alignment 3 gives the
  [MR,*] matrix the column alignment 3.
\<close>

theorem AlignWith_VR_STAR_alignment_out_of_range:
  "colAlignment (cyclic_VR_STAR 2 2 4 4 3 (\<lambda>i j. 4 * i + j) (0, 0)) = 3
   \<and> is_Returned (AlignWith_VR_STAR debug_build
         (empty_DistMatrix \<lparr>Height = 2, Width = 2, MCRank = 0, MRRank = 0\<rparr> :: int DistMatrix)
         (cyclic_VR_STAR 2 2 4 4 3 (\<lambda>i j. 4 * i + j) (0, 0)))
   \<and> colAlignment (result (AlignWith_VR_STAR debug_build
         (empty_DistMatrix \<lparr>Height = 2, Width = 2, MCRank = 0, MRRank = 0\<rparr> :: int DistMatrix)
         (cyclic_VR_STAR 2 2 4 4 3 (\<lambda>i j. 4 * i + j) (0, 0)))) = 3
   \<and> Width (grid (result (AlignWith_VR_STAR debug_build
         (empty_DistMatrix \<lparr>Height = 2, Width = 2, MCRank = 0, MRRank = 0\<rparr> :: int DistMatrix)
         (cyclic_VR_STAR 2 2 4 4 3 (\<lambda>i j. 4 * i + j) (0, 0))))) = 2
   \<and> \<not> MR_STAR_inv (result (AlignWith_VR_STAR debug_build
         (empty_DistMatrix \<lparr>Height = 2, Width = 2, MCRank = 0, MRRank = 0\<rparr> :: int DistMatrix)
         (cyclic_VR_STAR 2 2 4 4 3 (\<lambda>i j. 4 * i + j) (0, 0))))"
  by (simp add: AlignWith_VR_STAR_def debug_checks_def debug_build_def
      AssertFreeColAlignment_def AssertSameGrid_def set_col_alignment_def
      local_ResizeTo_def Matrix_ResizeTo_def empty_DistMatrix_def cyclic_VR_STAR_def
      MR_STAR_inv_def Let_def)

text \<open>
  C4. Assigning an [MR,*] matrix to an [MR,*] matrix over the same grid with an equal
  column alignment returns without any communication call, and the local matrix of the
  target then has the height, the width and the cells of the source's local matrix.
\<close>

theorem aligned_assignment_is_local_copy:
  assumes "colAlignment (this q) = colAlignment (A q)" and "grid (this q) = grid (A q)"
    and "0 \<le> height (A q)" "0 \<le> width (A q)"
    and "\<not> lockedView (this q)"
    and "viewing (this q) \<longrightarrow> height (this q) = height (A q) \<and> width (this q) = width (A q)"
    and "mviewing (localMatrix (this q)) = viewing (this q)"
  shows "is_Returned (assign_from_MR_STAR b this A q)
       \<and> snd (result (assign_from_MR_STAR b this A q)) = []
       \<and> mheight (localMatrix (assigned (assign_from_MR_STAR b this A q)))
           = mheight (localMatrix (A q))
       \<and> mwidth (localMatrix (assigned (assign_from_MR_STAR b this A q)))
           = mwidth (localMatrix (A q))
       \<and> mentry (localMatrix (assigned (assign_from_MR_STAR b this A q)))
           = mentry (localMatrix (A q))
       \<and> height (assigned (assign_from_MR_STAR b this A q)) = height (A q)
       \<and> width (assigned (assign_from_MR_STAR b this A q)) = width (A q)
       \<and> colAlignment (assigned (assign_from_MR_STAR b this A q)) = colAlignment (A q)"
proof -
  from resize_for_MR_STAR_aligned [OF assms, of b] obtain t where
    r: "resize_for_MR_STAR b (this q) (A q) = Returned t"
    and t: "colAlignment t = colAlignment (A q)" "height t = height (A q)" "width t = width (A q)"
    by blast
  have "assign_from_MR_STAR b this A q
          = Returned (t\<lparr>localMatrix := Matrix_copy (localMatrix t) (localMatrix (A q))\<rparr>, [])"
    unfolding assign_from_MR_STAR_def r using t(1) by simp
  then show ?thesis using t by (simp add: assigned_def Matrix_copy_def)
qed

theorem aligned_assignment_is_local_copy_witness:
  "colAlignment (aligned_MR_STAR 2 2 0 (0, 1) :: int DistMatrix) = colAlignment (example_MR_STAR (0, 1))
   \<and> is_Returned (assign_from_MR_STAR debug_build (aligned_MR_STAR 2 2 0) example_MR_STAR (0, 1))
   \<and> snd (result (assign_from_MR_STAR debug_build (aligned_MR_STAR 2 2 0) example_MR_STAR (0, 1))) = []
   \<and> mentry (localMatrix (assigned
          (assign_from_MR_STAR debug_build (aligned_MR_STAR 2 2 0) example_MR_STAR (0, 1)))) 1 2
        = Some 14"
proof -
  have h: "colAlignment (aligned_MR_STAR 2 2 0 (0, 1) :: int DistMatrix)
             = colAlignment (example_MR_STAR (0, 1))"
    "grid (aligned_MR_STAR 2 2 0 (0, 1) :: int DistMatrix) = grid (example_MR_STAR (0, 1))"
    "0 \<le> height (example_MR_STAR (0, 1))" "0 \<le> width (example_MR_STAR (0, 1))"
    "\<not> lockedView (aligned_MR_STAR 2 2 0 (0, 1) :: int DistMatrix)"
    "viewing (aligned_MR_STAR 2 2 0 (0, 1) :: int DistMatrix) \<longrightarrow>
       height (aligned_MR_STAR 2 2 0 (0, 1) :: int DistMatrix) = height (example_MR_STAR (0, 1))
       \<and> width (aligned_MR_STAR 2 2 0 (0, 1) :: int DistMatrix) = width (example_MR_STAR (0, 1))"
    "mviewing (localMatrix (aligned_MR_STAR 2 2 0 (0, 1) :: int DistMatrix))
       = viewing (aligned_MR_STAR 2 2 0 (0, 1) :: int DistMatrix)"
    by (simp_all add: aligned_MR_STAR_def empty_DistMatrix_def example_MR_STAR_def
        cyclic_MR_STAR_def Let_def)
  have v: "mentry (localMatrix (example_MR_STAR (0, 1))) 1 2 = Some 14"
    by (simp add: example_MR_STAR_def cyclic_MR_STAR_def Let_def Shift_def LocalLength_def)
  show ?thesis
    using h(1) v aligned_assignment_is_local_copy [of "aligned_MR_STAR 2 2 0" "(0, 1)"
        example_MR_STAR debug_build, OF h]
    by simp
qed

text \<open>
  C3, as stated, fails. On a 2 x 1 grid, assigning a 0 x 3 [VR,*] matrix to an [MR,*]
  matrix of the same column alignment returns, and the process has called
  \<open>AllGather\<close> over the process column with one padding element: the conversion is no
  local no-op.
\<close>

theorem zero_extent_still_communicates:
  "height (example_empty_VR_STAR (0, 0)) = 0
   \<and> is_Returned (assign_from_VR_STAR debug_build (aligned_MR_STAR 2 1 0)
         example_empty_VR_STAR (0, 0))
   \<and> snd (result (assign_from_VR_STAR debug_build (aligned_MR_STAR 2 1 0)
         example_empty_VR_STAR (0, 0)))
       = [AllGather 1 1 MCComm]"
proof -
  from assign_from_VR_STAR_zero [OF example_aligned_target example_empty_source, of 0 0 debug_build]
  show ?thesis
    by (auto simp add: debug_build_def example_empty_VR_STAR_def cyclic_VR_STAR_def Let_def)
qed

text \<open>
  C3, amended. When the source has height 0 or width 0 and a column alignment in its
  range, the assignments from [VR,*] and from [MR,MC] to an [MR,*] matrix that owns its
  storage and has a constrained column alignment return on every process, the result has
  the source's global dimensions and no local entry, and each process has still taken part
  in the communication: one \<open>AllGather\<close> over its process column, after one \<open>SendRecv\<close>
  when the column alignments differ, each of \<open>max(0, MIN_COLL_MSG)\<close> padding elements.
\<close>

theorem zero_extent_conversions:
  assumes "MR_STAR_target r c T b" and "source_family r c A H W ca ra"
    and "H = 0 \<or> W = 0"
    and "0 \<le> row" "row < r" "0 \<le> col" "col < c"
  shows "let m = max 0 (MIN_COLL_MSG bld)
         in (0 \<le> ca \<and> ca < r * c \<longrightarrow>
              (\<exists>t. assign_from_VR_STAR bld T A (row, col)
                     = Returned (t,
                         (if b = ca mod c then []
                          else [SendRecv m ((col + c * row + (b - ca)) mod (r * c))
                                         m ((col + c * row - (b - ca)) mod (r * c)) VRComm])
                         @ [AllGather m m MCComm])
                  \<and> height t = H \<and> width t = W
                  \<and> mheight (localMatrix t) * mwidth (localMatrix t) = 0))
          \<and> (0 \<le> ca \<and> ca < c \<longrightarrow>
              (\<exists>t. assign_from_MR_MC bld T A (row, col)
                     = Returned (t,
                         (if b = ca then []
                          else [SendRecv m ((col + (b - ca)) mod c)
                                         m ((col - (b - ca)) mod c) MRComm])
                         @ [AllGather m m MCComm])
                  \<and> height t = H \<and> width t = W
                  \<and> mheight (localMatrix t) * mwidth (localMatrix t) = 0))"
  unfolding Let_def
  using assign_from_VR_STAR_zero [OF assms(1,2,3) _ _ assms(4-7), of bld]
    assign_from_MR_MC_zero [OF assms(1,2,3) _ _ assms(4-7), of bld]
  by blast

theorem zero_extent_conversions_witness:
  "MR_STAR_target 2 1 (aligned_MR_STAR 2 1 0 :: int \<times> int \<Rightarrow> int DistMatrix) 0
   \<and> source_family 2 1 example_empty_VR_STAR 0 3 0 0
   \<and> height (assigned (assign_from_VR_STAR debug_build (aligned_MR_STAR 2 1 0)
         example_empty_VR_STAR (1, 0))) = 0
   \<and> is_Returned (assign_from_VR_STAR debug_build (aligned_MR_STAR 2 1 0)
         example_empty_VR_STAR (1, 0))
   \<and> snd (result (assign_from_VR_STAR debug_build (aligned_MR_STAR 2 1 0)
         example_empty_VR_STAR (1, 0))) = [AllGather 1 1 MCComm]
   \<and> is_Returned (assign_from_MR_MC debug_build (aligned_MR_STAR 2 1 0)
         example_empty_VR_STAR (1, 0))
   \<and> snd (result (assign_from_MR_MC debug_build (aligned_MR_STAR 2 1 0)
         example_empty_VR_STAR (1, 0))) = [AllGather 1 1 MCComm]"
proof -
  have h: "(0::int) = 0 \<or> (3::int) = 0" "(0::int) \<le> 1" "(1::int) < 2" "(0::int) \<le> 0" "(0::int) < 1"
    by simp_all
  show ?thesis
    using example_aligned_target example_empty_source
      zero_extent_conversions [OF example_aligned_target example_empty_source h, of debug_build]
    by (auto simp add: Let_def debug_build_def assigned_def)
qed

end
